theory Spec2Isabelle
  imports Complex_Main
begin

section \<open>Values, dictionaries and errors\<close>

text \<open>
  The two scripts work on documents loaded by \<^verbatim>\<open>json.load\<close>: a station and a pandal
  are Python dictionaries whose values are JSON values. A Python \<^verbatim>\<open>float\<close> is modelled
  by the real number it denotes and arithmetic on it is exact; a JSON document (RFC 8259)
  holds no NaN and no infinity, so the only infinity of the model is the literal
  \<^verbatim>\<open>float('inf')\<close> of the search loop. Integers and floats of a document are both
  \<open>JNum\<close>. A dictionary is an association list in insertion order.
\<close>

datatype json =
    JNull
  | JBool bool
  | JNum real
  | JStr string
  | JArr "json list"
  | JObj "(string \<times> json) list"

type_synonym dict = "(string \<times> json) list"

datatype error = KeyError string | TypeError | ValueError

text \<open>An exception propagates: the rest of the computation runs only on a result.\<close>

definition ebind :: "error + 'a \<Rightarrow> ('a \<Rightarrow> error + 'b) \<Rightarrow> error + 'b" where
  "ebind m f = (case m of Inl e \<Rightarrow> Inl e | Inr x \<Rightarrow> f x)"

text \<open>\<^verbatim>\<open>d[k]\<close> raises KeyError on a missing key; \<^verbatim>\<open>d.get(k, default)\<close> does not.\<close>

definition getitem :: "(string \<times> 'v) list \<Rightarrow> string \<Rightarrow> error + 'v" where
  "getitem d k = (case map_of d k of None \<Rightarrow> Inl (KeyError k) | Some v \<Rightarrow> Inr v)"

definition dict_get :: "(string \<times> 'v) list \<Rightarrow> string \<Rightarrow> 'v \<Rightarrow> 'v" where
  "dict_get d k dflt = (case map_of d k of None \<Rightarrow> dflt | Some v \<Rightarrow> v)"

text \<open>\<^verbatim>\<open>d[k] = v\<close>: an existing key keeps its place, a new key goes last.\<close>

fun setitem :: "(string \<times> 'v) list \<Rightarrow> string \<Rightarrow> 'v \<Rightarrow> (string \<times> 'v) list" where
  "setitem [] k v = [(k, v)]"
| "setitem ((k', v') # d) k v =
     (if k' = k then (k, v) # d else (k', v') # setitem d k v)"

text \<open>
  The numbers a \<^verbatim>\<open>math\<close> function or a float format accepts: ints, floats and
  (being ints in Python) booleans. Everything else raises TypeError there.
\<close>

fun as_number :: "json \<Rightarrow> real option" where
  "as_number (JNum x) = Some x"
| "as_number (JBool b) = Some (if b then 1 else 0)"
| "as_number _ = None"

section \<open>find\_nearest\_metro.py\<close>

subsection \<open>haversine\_distance\<close>

definition math_radians :: "json \<Rightarrow> error + real" where
  "math_radians v = (case as_number v of None \<Rightarrow> Inl TypeError | Some x \<Rightarrow> Inr (x * (pi / 180)))"

text \<open>\<^verbatim>\<open>math.sqrt\<close> and \<^verbatim>\<open>math.asin\<close> raise ValueError outside their domains.\<close>

definition math_sqrt :: "real \<Rightarrow> error + real" where
  "math_sqrt a = (if a < 0 then Inl ValueError else Inr (sqrt a))"

definition math_asin :: "real \<Rightarrow> error + real" where
  "math_asin x = (if x < -1 \<or> 1 < x then Inl ValueError else Inr (arcsin x))"

definition haversine_a :: "real \<Rightarrow> real \<Rightarrow> real \<Rightarrow> real \<Rightarrow> real" where
  "haversine_a lat1 lon1 lat2 lon2 =
     (let dlat = lat2 - lat1;
          dlon = lon2 - lon1
      in (sin (dlat / 2))\<^sup>2 + cos lat1 * cos lat2 * (sin (dlon / 2))\<^sup>2)"

definition haversine_distance :: "json \<Rightarrow> json \<Rightarrow> json \<Rightarrow> json \<Rightarrow> error + real" where
  "haversine_distance lat1 lon1 lat2 lon2 =
     ebind (math_radians lat1) (\<lambda>lat1'.
     ebind (math_radians lon1) (\<lambda>lon1'.
     ebind (math_radians lat2) (\<lambda>lat2'.
     ebind (math_radians lon2) (\<lambda>lon2'.
     ebind (math_sqrt (haversine_a lat1' lon1' lat2' lon2')) (\<lambda>s.
     ebind (math_asin s) (\<lambda>asn.
       (let c = 2 * asn; r = 6371000 in Inr (c * r))))))))"

subsection \<open>find\_nearest\_metro\_station\<close>

text \<open>
  \<^verbatim>\<open>min_distance\<close> starts at \<^verbatim>\<open>float('inf')\<close>, \<^verbatim>\<open>nearest_station\<close> at
  \<^verbatim>\<open>None\<close>; a station replaces the current one only on a strictly smaller distance.
\<close>

datatype pyfloat = Finite real | PosInf

fun float_lt :: "real \<Rightarrow> pyfloat \<Rightarrow> bool" where
  "float_lt d (Finite m) = (d < m)"
| "float_lt d PosInf = True"

fun scan_stations ::
  "json \<Rightarrow> json \<Rightarrow> dict list \<Rightarrow> pyfloat \<Rightarrow> dict option \<Rightarrow> error + (dict option \<times> pyfloat)" where
  "scan_stations pandal_lat pandal_lon [] min_distance nearest_station =
     Inr (nearest_station, min_distance)"
| "scan_stations pandal_lat pandal_lon (station # rest) min_distance nearest_station =
     ebind (getitem station ''latitude'') (\<lambda>slat.
     ebind (getitem station ''longitude'') (\<lambda>slon.
     ebind (haversine_distance pandal_lat pandal_lon slat slon) (\<lambda>distance.
       if float_lt distance min_distance
       then scan_stations pandal_lat pandal_lon rest (Finite distance) (Some station)
       else scan_stations pandal_lat pandal_lon rest min_distance nearest_station)))"

definition find_nearest_metro_station ::
  "json \<Rightarrow> json \<Rightarrow> dict list \<Rightarrow> error + (dict option \<times> pyfloat)" where
  "find_nearest_metro_station pandal_lat pandal_lon metro_stations =
     scan_stations pandal_lat pandal_lon metro_stations PosInf None"

subsection \<open>process\_pandals\_with\_metro\_data\<close>

text \<open>
  \<^verbatim>\<open>round(x, n)\<close> on a float: the nearest multiple of \<open>10\<^sup>-\<^sup>n\<close>, a tie going to the
  even one; an infinity is returned as it is.
\<close>

definition round_half_even :: "real \<Rightarrow> int" where
  "round_half_even x =
     (let f = \<lfloor>x\<rfloor>; d = x - of_int f
      in if d < 1 / 2 then f
         else if 1 / 2 < d then f + 1
         else if even f then f else f + 1)"

definition py_round :: "real \<Rightarrow> nat \<Rightarrow> real" where
  "py_round x ndigits = of_int (round_half_even (x * 10 ^ ndigits)) / 10 ^ ndigits"

fun round_pyfloat :: "pyfloat \<Rightarrow> nat \<Rightarrow> pyfloat" where
  "round_pyfloat (Finite d) ndigits = Finite (py_round d ndigits)"
| "round_pyfloat PosInf ndigits = PosInf"

text \<open>
  The values of an updated pandal: what the pandal and the station documents held, and
  the rounded distance the search computed.
\<close>

datatype pyval = Json json | Float pyfloat

type_synonym pydict = "(string \<times> pyval) list"

text \<open>\<^verbatim>\<open>nearest_station[k]\<close>: subscripting \<^verbatim>\<open>None\<close> raises TypeError.\<close>

definition subscript :: "dict option \<Rightarrow> string \<Rightarrow> error + json" where
  "subscript obj k = (case obj of None \<Rightarrow> Inl TypeError | Some d \<Rightarrow> getitem d k)"

definition dict_copy :: "dict \<Rightarrow> pydict" where
  "dict_copy d = map (\<lambda>(k, v). (k, Json v)) d"

text \<open>The body of the loop over the pandals: one updated pandal, or the exception.\<close>

definition update_pandal :: "dict \<Rightarrow> dict list \<Rightarrow> error + pydict" where
  "update_pandal pandal metro_stations =
     ebind (getitem pandal ''latitude'') (\<lambda>pandal_lat.
     ebind (getitem pandal ''longitude'') (\<lambda>pandal_lon.
     ebind (find_nearest_metro_station pandal_lat pandal_lon metro_stations)
       (\<lambda>(nearest_station, distance).
     ebind (subscript nearest_station ''short_code'') (\<lambda>short_code.
     ebind (subscript nearest_station ''name'') (\<lambda>name.
     ebind (subscript nearest_station ''location'') (\<lambda>location.
     ebind (subscript nearest_station ''lines'') (\<lambda>lines.
     ebind (subscript nearest_station ''latitude'') (\<lambda>latitude.
     ebind (subscript nearest_station ''longitude'') (\<lambda>longitude.
       (let u0 = dict_copy pandal;
            u1 = setitem u0 ''nearest_metro_id'' (Json short_code);
            u2 = setitem u1 ''nearest_metro_name'' (Json name);
            u3 = setitem u2 ''nearest_metro_location'' (Json location);
            u4 = setitem u3 ''nearest_metro_lines'' (Json lines);
            u5 = setitem u4 ''nearest_metro_latitude'' (Json latitude);
            u6 = setitem u5 ''nearest_metro_longitude'' (Json longitude)
        in Inr (setitem u6 ''nearest_metro_distance_meters''
                  (Float (round_pyfloat distance 2)))))))))))))"

fun update_pandals :: "dict list \<Rightarrow> dict list \<Rightarrow> pydict list \<Rightarrow> error + pydict list" where
  "update_pandals [] metro_stations updated_pandals = Inr updated_pandals"
| "update_pandals (pandal # rest) metro_stations updated_pandals =
     ebind (update_pandal pandal metro_stations) (\<lambda>updated_pandal.
       update_pandals rest metro_stations (updated_pandals @ [updated_pandal]))"

record metadata =
  total_pandals :: nat
  metro_stations_used :: nat
  processing_completed :: bool

record output_data =
  statusCode :: nat
  data :: "pydict list"
  metadata :: metadata

text \<open>
  What a run leaves behind: the document written to the output file, if it got that far,
  and the exception that ended it, if any. The statistics printed after the file is
  written take \<^verbatim>\<open>min\<close> of the distances, which raises ValueError on an empty list.
\<close>

record run =
  saved :: "output_data option"
  raised :: "error option"

definition process_pandals_with_metro_data :: "dict list \<Rightarrow> dict list \<Rightarrow> run" where
  "process_pandals_with_metro_data pandals metro_stations =
     (case update_pandals pandals metro_stations [] of
        Inl e \<Rightarrow> \<lparr>saved = None, raised = Some e\<rparr>
      | Inr updated_pandals \<Rightarrow>
          \<lparr>saved = Some \<lparr>statusCode = 200, data = updated_pandals,
                    metadata = \<lparr>total_pandals = length updated_pandals,
                                 metro_stations_used = length metro_stations,
                                 processing_completed = True\<rparr>\<rparr>,
           raised = (if updated_pandals = [] then Some ValueError else None)\<rparr>)"


subsection \<open>Well-formed inputs and the quantities the claims speak of\<close>

text \<open>
  A record carries coordinates when both keys are present and hold numbers. The distance
  from a query point to a station is the value the loop body computes for it.
\<close>

definition is_number :: "json \<Rightarrow> bool" where
  "is_number v = (as_number v \<noteq> None)"

definition has_coordinates :: "dict \<Rightarrow> bool" where
  "has_coordinates d =
     (case map_of d ''latitude'' of None \<Rightarrow> False
      | Some la \<Rightarrow> (case map_of d ''longitude'' of None \<Rightarrow> False
                   | Some lo \<Rightarrow> is_number la \<and> is_number lo))"

definition station_distance :: "json \<Rightarrow> json \<Rightarrow> dict \<Rightarrow> error + real" where
  "station_distance pandal_lat pandal_lon station =
     ebind (getitem station ''latitude'') (\<lambda>slat.
     ebind (getitem station ''longitude'') (\<lambda>slon.
       haversine_distance pandal_lat pandal_lon slat slon))"

text \<open>The two stations of \<^verbatim>\<open>create_initial_stations_data\<close>, as \<^verbatim>\<open>json.load\<close> returns them.\<close>

definition kavi_subhash :: dict where
  "kavi_subhash =
     [(''name'', JStr ''Kavi Subhash''), (''short_code'', JStr ''KKVS''),
      (''location'', JStr ''New Garia''),
      (''lines'', JArr [JStr ''Blue Line'', JStr ''Orange Line'']),
      (''latitude'', JNum 22.4721796), (''longitude'', JNum 88.3952919)]"

definition shahid_khudiram :: dict where
  "shahid_khudiram =
     [(''name'', JStr ''Shahid Khudiram''), (''short_code'', JStr ''KSKD''),
      (''location'', JStr ''Briji/Dhalai Bridge''),
      (''lines'', JArr [JStr ''Blue Line'']),
      (''latitude'', JNum 22.48), (''longitude'', JNum 88.381)]"

definition has_metadata :: "dict \<Rightarrow> bool" where
  "has_metadata s =
     (map_of s ''short_code'' \<noteq> None \<and> map_of s ''name'' \<noteq> None \<and>
      map_of s ''location'' \<noteq> None \<and> map_of s ''lines'' \<noteq> None)"

text \<open>The keys the loop body writes into the copy of a pandal.\<close>

definition nearest_metro_keys :: "string list" where
  "nearest_metro_keys =
     [''nearest_metro_id'', ''nearest_metro_name'', ''nearest_metro_location'',
      ''nearest_metro_lines'', ''nearest_metro_latitude'', ''nearest_metro_longitude'',
      ''nearest_metro_distance_meters'']"

text \<open>Query points: two with coordinates, one without.\<close>

definition pandal_at_kavi_subhash :: dict where
  "pandal_at_kavi_subhash =
     [(''id'', JNum 1), (''name'', JStr ''Pandal One''),
      (''latitude'', JNum 22.4721796), (''longitude'', JNum 88.3952919)]"

definition pandal_elsewhere :: dict where
  "pandal_elsewhere =
     [(''id'', JNum 2), (''name'', JStr ''Pandal Two''),
      (''latitude'', JNum 22.5726), (''longitude'', JNum 88.3639)]"

definition pandal_without_latitude :: dict where
  "pandal_without_latitude =
     [(''id'', JNum 3), (''name'', JStr ''Pandal Three''), (''longitude'', JNum 88.3639)]"

section \<open>fetch\_metro\_details.py\<close>

subsection \<open>The network\<close>

text \<open>
  \<^verbatim>\<open>requests.get\<close> either raises or returns a response with a status code and a text
  (here a sequence of characters with code points below 256, one \<open>char\<close> each). The URL
  of a request is an endpoint followed by the percent-encoded query, the query being a
  format string with the station name and the location filled in:
  \<open>Get endpoint query_format station_name location\<close>. Which response comes back for it
  is decided by the network, a parameter of the model. The pauses between requests
  (\<^verbatim>\<open>time.sleep\<close>) and the progress messages are left out.
\<close>

datatype response = RequestException | Response nat string

datatype request = Get string string json string

type_synonym http = "request \<Rightarrow> response"

subsection \<open>Regular expressions\<close>

text \<open>
  The patterns of the script are sequences of literal characters and greedy repetitions
  of a character class, with two capture groups. \<open>Rep cls lo hi\<close> is \<^verbatim>\<open>[cls]{lo,hi}\<close>
  (\<open>hi = None\<close>: unbounded). Matching is Python's: a repetition takes as many characters
  as it can and gives back one at a time when the rest of the pattern fails.
\<close>

datatype item = Lit char | Rep string nat "nat option" | Open | Close

fun first_some :: "('a \<Rightarrow> 'b option) \<Rightarrow> 'a list \<Rightarrow> 'b option" where
  "first_some f [] = None"
| "first_some f (x # xs) = (case f x of Some r \<Rightarrow> Some r | None \<Rightarrow> first_some f xs)"

text \<open>
  \<open>rmatch p s cur groups\<close> matches \<open>p\<close> at the start of \<open>s\<close>; \<open>cur\<close> is the text of the
  group that is open, \<open>groups\<close> the groups closed so far. The result is the captured
  groups and the text left after the match.
\<close>

fun rmatch :: "item list \<Rightarrow> string \<Rightarrow> string option \<Rightarrow> string list \<Rightarrow> (string list \<times> string) option" where
  "rmatch [] s cur groups = Some (groups, s)"
| "rmatch (Lit c # p) s cur groups =
     (case s of [] \<Rightarrow> None
      | x # xs \<Rightarrow> if x = c then rmatch p xs (map_option (\<lambda>g. g @ [x]) cur) groups else None)"
| "rmatch (Open # p) s cur groups = rmatch p s (Some []) groups"
| "rmatch (Close # p) s cur groups =
     rmatch p s None (case cur of None \<Rightarrow> groups | Some g \<Rightarrow> groups @ [g])"
| "rmatch (Rep cls lo hi # p) s cur groups =
     (let run = length (takeWhile (\<lambda>c. c \<in> set cls) s);
          most = (case hi of None \<Rightarrow> run | Some h \<Rightarrow> min h run)
      in first_some
           (\<lambda>n. rmatch p (drop n s) (map_option (\<lambda>g. g @ take n s) cur) groups)
           (rev [lo..<Suc most]))"

text \<open>
  \<^verbatim>\<open>re.findall\<close>: the matches from left to right, each search starting where the last
  match ended; a match is the list of its groups. (No pattern of the script matches the
  empty string; the branch for an empty match keeps the scan moving.)
\<close>

fun findall :: "item list \<Rightarrow> string \<Rightarrow> string list list" where
  "findall p s =
     (case rmatch p s None [] of
        Some (groups, rest) \<Rightarrow>
          if length rest < length s then groups # findall p rest
          else (case s of [] \<Rightarrow> [groups] | _ # s' \<Rightarrow> groups # findall p s')
      | None \<Rightarrow> (case s of [] \<Rightarrow> [] | _ # s' \<Rightarrow> findall p s'))"

definition lits :: "string \<Rightarrow> item list" where
  "lits s = map Lit s"

definition group :: "item list \<Rightarrow> item list" where
  "group p = Open # p @ [Close]"

definition digit_chars :: string where
  "digit_chars = ''0123456789''"

text \<open>\<^verbatim>\<open>[0-9.-]\<close>: a digit, a dot or a minus sign.\<close>

definition coord_chars :: string where
  "coord_chars = ''0123456789.-''"

text \<open>
  \<^verbatim>\<open>\s\<close> on a \<^verbatim>\<open>str\<close>: the characters for which \<^verbatim>\<open>str.isspace\<close> holds. Below 256
  these are tab, newline, VT, FF, return, the separators 1C-1F, space, U+0085 (next line)
  and U+00A0 (no-break space).
\<close>

definition space_chars :: string where
  "space_chars = [CHR 0x09, CHR 0x0A, CHR 0x0B, CHR 0x0C, CHR 0x0D,
                  CHR 0x1C, CHR 0x1D, CHR 0x1E, CHR 0x1F, CHR '' '', CHR 0x85, CHR 0xA0]"

text \<open>
  The five patterns, in the order of the list in the source:
  \<^verbatim>\<open>@([0-9.-]+),([0-9.-]+)\<close>,
  \<^verbatim>\<open>!3d([0-9.-]+)!4d([0-9.-]+)\<close>,
  \<^verbatim>\<open>center=([0-9.-]+)%2C([0-9.-]+)\<close>,
  \<^verbatim>\<open>"lat":\s*([0-9.-]+),\s*"lng":\s*([0-9.-]+)\<close> and
  \<^verbatim>\<open>([0-9]{2}\.[0-9]{6,7}),([0-9]{2,3}\.[0-9]{6,7})\<close>.
\<close>

definition pattern_at :: "item list" where
  "pattern_at =
     lits ''@'' @ group [Rep coord_chars 1 None] @ lits '','' @ group [Rep coord_chars 1 None]"

definition pattern_3d4d :: "item list" where
  "pattern_3d4d =
     lits ''!3d'' @ group [Rep coord_chars 1 None] @ lits ''!4d'' @ group [Rep coord_chars 1 None]"

definition pattern_center :: "item list" where
  "pattern_center =
     lits ''center='' @ group [Rep coord_chars 1 None] @ lits ''%2C'' @
     group [Rep coord_chars 1 None]"

definition pattern_lat_lng :: "item list" where
  "pattern_lat_lng =
     [Lit (CHR 0x22)] @ lits ''lat'' @ [Lit (CHR 0x22)] @ lits '':'' @ [Rep space_chars 0 None] @
     group [Rep coord_chars 1 None] @ lits '','' @ [Rep space_chars 0 None] @
     [Lit (CHR 0x22)] @ lits ''lng'' @ [Lit (CHR 0x22)] @ lits '':'' @ [Rep space_chars 0 None] @
     group [Rep coord_chars 1 None]"

definition pattern_plain :: "item list" where
  "pattern_plain =
     group [Rep digit_chars 2 (Some 2), Lit (CHR ''.''), Rep digit_chars 6 (Some 7)] @
     lits '','' @
     group [Rep digit_chars 2 (Some 3), Lit (CHR ''.''), Rep digit_chars 6 (Some 7)]"

definition patterns :: "item list list" where
  "patterns = [pattern_at, pattern_3d4d, pattern_center, pattern_lat_lng, pattern_plain]"

subsection \<open>Numbers from and to text\<close>

text \<open>The value of a digit is its place in the string of digits.\<close>

definition digit_value :: "char \<Rightarrow> nat" where
  "digit_value c = length (takeWhile (\<lambda>d. d \<noteq> c) digit_chars)"

definition digits_value :: "string \<Rightarrow> nat" where
  "digits_value s = foldl (\<lambda>a c. 10 * a + digit_value c) 0 s"

definition all_digits :: "string \<Rightarrow> bool" where
  "all_digits s = list_all (\<lambda>c. c \<in> set digit_chars) s"

text \<open>
  \<^verbatim>\<open>float(s)\<close> on the strings a group of the patterns can capture (digits, dots and
  minus signs): an optional leading minus, then digits with at most one dot and at least
  one digit; anything else raises ValueError. The value is the decimal the string denotes.
\<close>

definition py_float :: "string \<Rightarrow> error + real" where
  "py_float s =
     (let neg = (s \<noteq> [] \<and> hd s = CHR ''-'');
          body = (if neg then tl s else s);
          ip = takeWhile (\<lambda>c. c \<in> set digit_chars) body;
          r = dropWhile (\<lambda>c. c \<in> set digit_chars) body;
          fp = (if r = [] then [] else tl r);
          v = real (digits_value ip) + real (digits_value fp) / 10 ^ length fp
      in if (r = [] \<or> hd r = CHR ''.'') \<and> all_digits fp \<and> (ip \<noteq> [] \<or> fp \<noteq> [])
         then Inr (if neg then - v else v)
         else Inl ValueError)"

fun digit_char :: "nat \<Rightarrow> char" where
  "digit_char n = digit_chars ! (n mod 10)"

fun digits_of :: "nat \<Rightarrow> string" where
  "digits_of n = (if n < 10 then [digit_char n] else digits_of (n div 10) @ [digit_char n])"

text \<open>
  \<^verbatim>\<open>f'{x:.7f}'\<close> is \<open>format_fixed x 7\<close>: the sign, the integer part, a dot and exactly
  \<open>prec\<close> digits of the value rounded to \<open>prec\<close> places (the script formats with 7
  places only; a negative value that rounds to zero keeps its sign, as in Python).
\<close>

definition format_fixed :: "real \<Rightarrow> nat \<Rightarrow> string" where
  "format_fixed x prec =
     (let n = nat (round_half_even (\<bar>x\<bar> * 10 ^ prec));
          fs = digits_of (n mod 10 ^ prec)
      in (if x < 0 then ''-'' else []) @ digits_of (n div 10 ^ prec) @ ''.'' @
         replicate (prec - length fs) (CHR ''0'') @ fs)"

text \<open>
  Formatting a value of a document with \<^verbatim>\<open>.7f\<close>: a string raises ValueError (unknown
  format code), \<^verbatim>\<open>None\<close>, a list and a dict raise TypeError.
\<close>

definition format_7f :: "json \<Rightarrow> error + string" where
  "format_7f v =
     (case as_number v of
        Some x \<Rightarrow> Inr (format_fixed x 7)
      | None \<Rightarrow> (case v of JStr s \<Rightarrow> Inl ValueError | _ \<Rightarrow> Inl TypeError))"

text \<open>\<^verbatim>\<open>s.split('.')[-1]\<close>: what follows the last dot (all of \<open>s\<close> when it has none).\<close>

definition after_last_dot :: "string \<Rightarrow> string" where
  "after_last_dot s = rev (takeWhile (\<lambda>c. c \<noteq> CHR ''.'') (rev s))"

subsection \<open>get\_google\_maps\_coordinates\<close>

text \<open>
  The loops return as soon as a pair in the Kolkata box is found: \<open>Inr (Some pair)\<close> is
  that return, \<open>Inr None\<close> a loop that ran to its end, \<open>Inl e\<close> an exception. Both
  conversions are made before the box is tested.
\<close>

fun try_matches :: "string list list \<Rightarrow> error + (real \<times> real) option" where
  "try_matches [] = Inr None"
| "try_matches (m # matches) =
     (case m of
        [lat, lng] \<Rightarrow>
          ebind (py_float lat) (\<lambda>lat_f.
          ebind (py_float lng) (\<lambda>lng_f.
            if 22.0 \<le> lat_f \<and> lat_f \<le> 23.0 \<and> 87.0 \<le> lng_f \<and> lng_f \<le> 89.0
            then Inr (Some (py_round lat_f 7, py_round lng_f 7))
            else try_matches matches))
      | _ \<Rightarrow> Inl ValueError)"

fun try_patterns :: "item list list \<Rightarrow> string \<Rightarrow> error + (real \<times> real) option" where
  "try_patterns [] text = Inr None"
| "try_patterns (pattern # rest) text =
     (let matches = findall pattern text
      in case (if matches \<noteq> [] then try_matches matches else Inr None) of
           Inl e \<Rightarrow> Inl e
         | Inr (Some found) \<Rightarrow> Inr (Some found)
         | Inr None \<Rightarrow> try_patterns rest text)"

text \<open>The \<^verbatim>\<open>except Exception\<close> around the whole body turns every exception into the pair of Nones.\<close>

definition get_google_maps_coordinates :: "http \<Rightarrow> json \<Rightarrow> string \<Rightarrow> real option \<times> real option" where
  "get_google_maps_coordinates http station_name location =
     (case http (Get ''https://www.google.com/maps/search/''
                   ''{station_name} metro station {location}'' station_name location) of
        RequestException \<Rightarrow> (None, None)
      | Response status_code text \<Rightarrow>
          if status_code = 200
          then (case try_patterns patterns text of
                  Inl e \<Rightarrow> (None, None)
                | Inr (Some (lat, lng)) \<Rightarrow> (Some lat, Some lng)
                | Inr None \<Rightarrow> (None, None))
          else (None, None))"

subsection \<open>get\_coordinates\_alternative\<close>

text \<open>
  Here only the first match of a pattern is looked at, the longitude is converted only
  when the latitude is in range, and the pair is returned unrounded.
\<close>

fun try_first_matches :: "item list list \<Rightarrow> string \<Rightarrow> error + (real \<times> real) option" where
  "try_first_matches [] text = Inr None"
| "try_first_matches (pattern # rest) text =
     (case findall pattern text of
        [] \<Rightarrow> try_first_matches rest text
      | m # _ \<Rightarrow>
          (case m of
             [lat, lng] \<Rightarrow>
               ebind (py_float lat) (\<lambda>lat_f.
                 if 22.0 \<le> lat_f \<and> lat_f \<le> 23.0
                 then ebind (py_float lng) (\<lambda>lng_f.
                        if 87.0 \<le> lng_f \<and> lng_f \<le> 89.0
                        then Inr (Some (lat_f, lng_f))
                        else try_first_matches rest text)
                 else try_first_matches rest text)
           | _ \<Rightarrow> Inl ValueError))"

text \<open>
  The requests in the order of the two loops: for each query format, each endpoint. An
  exception inside the inner \<^verbatim>\<open>try\<close> moves on to the next URL.
\<close>

definition search_queries :: "string list" where
  "search_queries =
     [''{station_name} metro station {location}'', ''{station_name} station {location}'',
      ''metro {station_name} {location}'']"

definition urls :: "string list" where
  "urls = [''https://maps.google.com/maps?q='', ''https://www.google.com/maps/search/'',
           ''https://maps.google.com/maps/place/'']"

fun try_requests :: "http \<Rightarrow> request list \<Rightarrow> (real \<times> real) option" where
  "try_requests http [] = None"
| "try_requests http (req # rest) =
     (case http req of
        RequestException \<Rightarrow> try_requests http rest
      | Response status_code text \<Rightarrow>
          if status_code = 200
          then (case try_first_matches patterns text of
                  Inl e \<Rightarrow> try_requests http rest
                | Inr (Some found) \<Rightarrow> Some found
                | Inr None \<Rightarrow> try_requests http rest)
          else try_requests http rest)"

definition get_coordinates_alternative :: "http \<Rightarrow> json \<Rightarrow> string \<Rightarrow> real option \<times> real option" where
  "get_coordinates_alternative http station_name location =
     (case try_requests http
             (concat (map (\<lambda>query. map (\<lambda>url. Get url query station_name location) urls)
                search_queries)) of
        None \<Rightarrow> (None, None)
      | Some (lat, lng) \<Rightarrow> (Some lat, Some lng))"

subsection \<open>verify\_coordinate\_precision\<close>

fun verify_stations :: "dict list \<Rightarrow> bool \<Rightarrow> error + bool" where
  "verify_stations [] all_correct = Inr all_correct"
| "verify_stations (station # rest) all_correct =
     (let lat = dict_get station ''latitude'' (JNum 0);
          lng = dict_get station ''longitude'' (JNum 0)
      in ebind (format_7f lat) (\<lambda>lat_str.
         ebind (format_7f lng) (\<lambda>lng_str.
           (let lat_decimals = length (after_last_dot lat_str);
                lng_decimals = length (after_last_dot lng_str);
                is_correct = (lat_decimals = 7 \<and> lng_decimals = 7)
            in ebind (getitem station ''name'') (\<lambda>name.
                 verify_stations rest (if \<not> is_correct then False else all_correct))))))"

definition verify_coordinate_precision :: "dict list \<Rightarrow> error + bool" where
  "verify_coordinate_precision stations = verify_stations stations True"

subsection \<open>scrape\_all\_coordinates\<close>

text \<open>
  The test that skips a station: both keys present, both values numbers, and both
  \<^verbatim>\<open>.7f\<close> renderings with at least 7 characters after the dot.
\<close>

definition already_precise :: "dict \<Rightarrow> bool" where
  "already_precise station =
     (case map_of station ''latitude'' of None \<Rightarrow> False
      | Some lat \<Rightarrow>
     (case map_of station ''longitude'' of None \<Rightarrow> False
      | Some lng \<Rightarrow>
     (case as_number lat of None \<Rightarrow> False
      | Some x \<Rightarrow>
     (case as_number lng of None \<Rightarrow> False
      | Some y \<Rightarrow>
          7 \<le> length (after_last_dot (format_fixed x 7)) \<and>
          7 \<le> length (after_last_dot (format_fixed y 7))))))"

text \<open>
  The loop over the stations. A station is a mutable dictionary of the list; the model
  rebuilds the list, \<open>seen\<close> holding the stations already passed, in order.
\<close>

fun scrape_stations ::
  "http \<Rightarrow> dict list \<Rightarrow> dict list \<Rightarrow> nat \<Rightarrow> json list \<Rightarrow> error + (dict list \<times> nat \<times> json list)" where
  "scrape_stations http [] seen updated_count failed_stations =
     Inr (seen, updated_count, failed_stations)"
| "scrape_stations http (station # rest) seen updated_count failed_stations =
     ebind (getitem station ''name'') (\<lambda>station_name.
       if already_precise station
       then scrape_stations http rest (seen @ [station]) updated_count failed_stations
       else (case get_google_maps_coordinates http station_name ''Kolkata'' of
               (Some lat, Some lng) \<Rightarrow>
                 (let lat' = py_round lat 7;
                      lng' = py_round lng 7;
                      station' = setitem (setitem station ''latitude'' (JNum lat'))
                                   ''longitude'' (JNum lng')
                  in scrape_stations http rest (seen @ [station']) (updated_count + 1)
                       failed_stations)
             | _ \<Rightarrow>
                 scrape_stations http rest (seen @ [station]) updated_count
                   (failed_stations @ [station_name])))"

text \<open>
  A run of \<^verbatim>\<open>scrape_all_coordinates\<close> on the loaded stations: what is saved to the file
  (nothing when the list is empty or an exception ends the run), the two counters of the
  summary, and the exception, if any.
\<close>

record scrape_run =
  stations_saved :: "dict list option"
  updated :: nat
  failed :: "json list"
  scrape_raised :: "error option"

definition scrape_all_coordinates :: "http \<Rightarrow> dict list \<Rightarrow> scrape_run" where
  "scrape_all_coordinates http stations =
     (if stations = []
      then \<lparr>stations_saved = None, updated = 0, failed = [], scrape_raised = None\<rparr>
      else (case scrape_stations http stations [] 0 [] of
              Inl e \<Rightarrow> \<lparr>stations_saved = None, updated = 0, failed = [], scrape_raised = Some e\<rparr>
            | Inr (seen, updated_count, failed_stations) \<Rightarrow>
                \<lparr>stations_saved = Some seen, updated = updated_count,
                 failed = failed_stations, scrape_raised = None\<rparr>))"

text \<open>A network that answers every request with status 200 and the same text.\<close>

definition answering :: "string \<Rightarrow> http" where
  "answering text req = Response 200 text"

subsection \<open>The quantities the claims about the resolvers speak of\<close>

definition in_kolkata_box :: "real \<Rightarrow> real \<Rightarrow> bool" where
  "in_kolkata_box lat lng = (22.0 \<le> lat \<and> lat \<le> 23.0 \<and> 87.0 \<le> lng \<and> lng \<le> 89.0)"

text \<open>
  The candidates of a response text for the primary resolver: the matches of all
  patterns, pattern by pattern in priority order and, within a pattern, in text order.
  For the alternative resolver: the first match of each pattern that has one.
\<close>

definition candidates :: "string \<Rightarrow> string list list" where
  "candidates text = concat (map (\<lambda>pattern. findall pattern text) patterns)"

definition first_candidates :: "string \<Rightarrow> string list list" where
  "first_candidates text = concat (map (\<lambda>pattern. take 1 (findall pattern text)) patterns)"

text \<open>The numbers a candidate denotes, when both of its groups convert.\<close>

definition candidate_value :: "string list \<Rightarrow> (real \<times> real) option" where
  "candidate_value m =
     (case m of
        [lat, lng] \<Rightarrow>
          (case py_float lat of Inl e \<Rightarrow> None
           | Inr lat_f \<Rightarrow> (case py_float lng of Inl e \<Rightarrow> None | Inr lng_f \<Rightarrow> Some (lat_f, lng_f)))
      | _ \<Rightarrow> None)"

definition accepted :: "string list \<Rightarrow> bool" where
  "accepted m =
     (case candidate_value m of None \<Rightarrow> False | Some (lat_f, lng_f) \<Rightarrow> in_kolkata_box lat_f lng_f)"

definition rejected :: "string list \<Rightarrow> bool" where
  "rejected m =
     (case candidate_value m of None \<Rightarrow> False
      | Some (lat_f, lng_f) \<Rightarrow> \<not> in_kolkata_box lat_f lng_f)"

text \<open>The nine requests of the alternative resolver, in the order they are sent.\<close>

definition alternative_requests :: "json \<Rightarrow> string \<Rightarrow> request list" where
  "alternative_requests station_name location =
     concat (map (\<lambda>query. map (\<lambda>url. Get url query station_name location) urls)
       search_queries)"

text \<open>
  What the alternative resolver does with a first match that is not accepted. It passes
  it over, going on to the next pattern, when the latitude converts and is out of range,
  or is in range and the longitude converts and is out of range. Otherwise
  \<^verbatim>\<open>float\<close> raises and the response is given up.
\<close>

definition passed_over :: "string list \<Rightarrow> bool" where
  "passed_over m =
     (case m of
        [lat, lng] \<Rightarrow>
          (case py_float lat of Inl e \<Rightarrow> False
           | Inr lat_f \<Rightarrow>
               if 22.0 \<le> lat_f \<and> lat_f \<le> 23.0
               then (case py_float lng of Inl e \<Rightarrow> False
                     | Inr lng_f \<Rightarrow> \<not> (87.0 \<le> lng_f \<and> lng_f \<le> 89.0))
               else True)
      | _ \<Rightarrow> False)"

text \<open>
  First matches that give no pair: all are passed over, or one that \<^verbatim>\<open>float\<close> refuses
  comes before any that is accepted.
\<close>

fun ends_without_pair :: "string list list \<Rightarrow> bool" where
  "ends_without_pair [] = True"
| "ends_without_pair (m # ms) =
     (if accepted m then False else if passed_over m then ends_without_pair ms else True)"

text \<open>
  A request that yields nothing: it raises, its status is not 200, or the first matches
  of its response give no pair.
\<close>

definition yields_nothing :: "http \<Rightarrow> request \<Rightarrow> bool" where
  "yields_nothing http req =
     (case http req of
        RequestException \<Rightarrow> True
      | Response status_code body \<Rightarrow>
          status_code \<noteq> 200 \<or> ends_without_pair (first_candidates body))"

section \<open>Properties of find\_nearest\_metro.py\<close>

lemma ebind_simps [simp]: "ebind (Inl e) f = Inl e" "ebind (Inr x) f = f x"
  by (simp_all add: ebind_def)

subsection \<open>The great-circle distance\<close>

lemma sin_half_diff: "sin ((c - a) / 2) = - sin ((a - c) / 2)" for a c :: real
proof -
  have "(c - a) / 2 = - ((a - c) / 2)" by (simp add: field_simps)
  then show ?thesis by (simp only: sin_minus)
qed

lemma haversine_a_sym: "haversine_a a b c d = haversine_a c d a b"
  by (simp add: haversine_a_def Let_def mult.commute sin_half_diff [of a c] sin_half_diff [of b d])

lemma abs_mult_le_half_squares: "\<bar>x * y\<bar> \<le> (x\<^sup>2 + y\<^sup>2) / 2" for x y :: real
proof -
  have "0 \<le> (\<bar>x\<bar> - \<bar>y\<bar>)\<^sup>2" by simp
  also have "(\<bar>x\<bar> - \<bar>y\<bar>)\<^sup>2 = x\<^sup>2 + y\<^sup>2 - 2 * \<bar>x * y\<bar>"
    by (simp add: power2_diff abs_mult)
  finally show ?thesis by simp
qed

lemma abs_mult_unit: "\<bar>t\<bar> \<le> 1 \<Longrightarrow> \<bar>x * t\<bar> \<le> \<bar>x\<bar>" for t x :: real
  by (simp add: abs_mult mult_left_le)

lemma sin_sq_half: "(sin (x / 2))\<^sup>2 = (1 - cos x) / 2" for x :: real
  using cos_double_sin [of "x / 2"] by simp

text \<open>
  The quantity under the square root is the haversine of the central angle: half of one
  minus the dot product of the two unit vectors. It lies in the unit interval for all
  arguments, so on numbers neither \<^verbatim>\<open>math.sqrt\<close> nor \<^verbatim>\<open>math.asin\<close> raises.
\<close>

lemma haversine_a_eq:
  "haversine_a a b c d = (1 - (sin a * sin c + cos a * cos c * cos (d - b))) / 2"
proof -
  have "haversine_a a b c d = (1 - cos (c - a)) / 2 + cos a * cos c * ((1 - cos (d - b)) / 2)"
    by (simp add: haversine_a_def Let_def sin_sq_half)
  also have "\<dots> = (1 - (sin a * sin c + cos a * cos c * cos (d - b))) / 2"
    by (simp add: cos_diff [of c a] field_simps)
  finally show ?thesis .
qed

lemma abs_sum_le_one:
  fixes p q x y z w :: real
  assumes "\<bar>p\<bar> \<le> (x + y) / 2" "\<bar>q\<bar> \<le> (z + w) / 2" "x + z = 1" "y + w = 1"
  shows "\<bar>p + q\<bar> \<le> 1"
proof -
  have "\<bar>p + q\<bar> \<le> \<bar>p\<bar> + \<bar>q\<bar>" by (rule abs_triangle_ineq)
  also have "\<dots> \<le> (x + y) / 2 + (z + w) / 2" using assms(1,2) by (rule add_mono)
  also have "\<dots> = ((x + z) + (y + w)) / 2" by (simp add: field_simps)
  also have "\<dots> = 1" by (simp add: assms(3,4))
  finally show ?thesis .
qed

lemma haversine_a_range: "0 \<le> haversine_a a b c d \<and> haversine_a a b c d \<le> 1"
proof -
  define u where "u = sin a * sin c + cos a * cos c * cos (d - b)"
  have s: "\<bar>sin a * sin c\<bar> \<le> ((sin a)\<^sup>2 + (sin c)\<^sup>2) / 2"
    by (rule abs_mult_le_half_squares)
  have "\<bar>cos a * cos c * cos (d - b)\<bar> \<le> \<bar>cos a * cos c\<bar>"
    by (rule abs_mult_unit) simp
  also have "\<dots> \<le> ((cos a)\<^sup>2 + (cos c)\<^sup>2) / 2"
    by (rule abs_mult_le_half_squares)
  finally have c: "\<bar>cos a * cos c * cos (d - b)\<bar> \<le> ((cos a)\<^sup>2 + (cos c)\<^sup>2) / 2" .
  have "\<bar>u\<bar> \<le> 1"
    unfolding u_def by (rule abs_sum_le_one [OF s c]) simp_all
  then have "- 1 \<le> u \<and> u \<le> 1" by (simp add: abs_le_iff)
  then show ?thesis
    by (simp add: haversine_a_eq u_def [symmetric])
qed

lemma haversine_distance_numbers:
  assumes "as_number a = Some x" "as_number b = Some y" "as_number c = Some z" "as_number d = Some w"
  shows "\<exists>m. haversine_distance a b c d = Inr m"
proof -
  define h where "h = haversine_a (x * pi / 180) (y * pi / 180) (z * pi / 180) (w * pi / 180)"
  have r: "0 \<le> h" "h \<le> 1" using haversine_a_range unfolding h_def by blast+
  have "0 \<le> sqrt h" "sqrt h \<le> 1" using r by simp_all
  then have s: "\<not> sqrt h < - 1" "\<not> 1 < sqrt h" by linarith+
  have "math_sqrt h = Inr (sqrt h)" using r by (simp add: math_sqrt_def)
  moreover have "math_asin (sqrt h) = Inr (arcsin (sqrt h))" using s by (simp add: math_asin_def)
  ultimately show ?thesis
    by (simp add: haversine_distance_def math_radians_def assms h_def [symmetric])
qed

lemma haversine_distance_same_point:
  "haversine_distance (JNum lat) (JNum lon) (JNum lat) (JNum lon) = Inr 0"
  by (simp add: haversine_distance_def math_radians_def math_sqrt_def math_asin_def haversine_a_def)

lemma haversine_distance_commute:
  "haversine_distance lat1 lon1 lat2 lon2 = haversine_distance lat2 lon2 lat1 lon1"
  by (cases "as_number lat1"; cases "as_number lon1"; cases "as_number lat2"; cases "as_number lon2")
     (simp_all add: haversine_distance_def math_radians_def haversine_a_sym)

text \<open>
  Claim C8. The great-circle distance from a point to itself is 0, for every latitude and
  longitude, and the distance is symmetric: exchanging the two points gives the same
  result (the same number, or the same TypeError when an argument is not a number).
\<close>

theorem haversine_zero_and_symmetric:
  "haversine_distance (JNum lat) (JNum lon) (JNum lat) (JNum lon) = Inr 0 \<and>
   haversine_distance lat1 lon1 lat2 lon2 = haversine_distance lat2 lon2 lat1 lon1"
  using haversine_distance_same_point haversine_distance_commute by blast

subsection \<open>The nearest station\<close>

lemma station_distance_numbers:
  assumes "is_number plat" "is_number plon" "has_coordinates s"
  shows "\<exists>m. station_distance plat plon s = Inr m"
proof -
  from assms(3) obtain la lo where
    l: "map_of s ''latitude'' = Some la" "map_of s ''longitude'' = Some lo"
    "is_number la" "is_number lo"
    by (auto simp: has_coordinates_def split: option.splits)
  with assms(1,2) obtain x y z w where
    "as_number plat = Some x" "as_number plon = Some y" "as_number la = Some z" "as_number lo = Some w"
    by (auto simp: is_number_def)
  from haversine_distance_numbers [OF this] l(1,2) show ?thesis
    by (auto simp: station_distance_def getitem_def)
qed

lemma float_lt_trans: "a < b \<Longrightarrow> float_lt b m \<Longrightarrow> float_lt a m"
  by (cases m) auto

lemma float_lt_not: "float_lt a m \<Longrightarrow> \<not> float_lt b m \<Longrightarrow> a < b"
  by (cases m) auto

lemma scan_stations_step:
  "station_distance plat plon s = Inr d \<Longrightarrow>
   scan_stations plat plon (s # rest) md ns =
     (if float_lt d md then scan_stations plat plon rest (Finite d) (Some s)
      else scan_stations plat plon rest md ns)"
  by (auto simp: station_distance_def ebind_def split: sum.splits)

text \<open>
  The loop invariant, read off at the end: either no station improved on the starting
  minimum, or the result is the first station of least distance, below the start.
\<close>

lemma scan_stations_spec:
  assumes "\<forall>s\<in>set xs. \<exists>d. station_distance plat plon s = Inr d"
  shows "(scan_stations plat plon xs md ns = Inr (ns, md) \<and>
          (\<forall>t\<in>set xs. \<exists>d. station_distance plat plon t = Inr d \<and> \<not> float_lt d md)) \<or>
         (\<exists>pre s post d. xs = pre @ s # post \<and>
            scan_stations plat plon xs md ns = Inr (Some s, Finite d) \<and>
            station_distance plat plon s = Inr d \<and> float_lt d md \<and>
            (\<forall>t\<in>set pre. \<exists>d'. station_distance plat plon t = Inr d' \<and> d < d') \<and>
            (\<forall>t\<in>set post. \<exists>d'. station_distance plat plon t = Inr d' \<and> d \<le> d'))"
  using assms
proof (induction xs arbitrary: md ns)
  case Nil
  then show ?case by simp
next
  case (Cons x xs)
  then obtain dx where dx: "station_distance plat plon x = Inr dx" by auto
  from Cons.prems have rest: "\<forall>s\<in>set xs. \<exists>d. station_distance plat plon s = Inr d" by simp
  show ?case
  proof (cases "float_lt dx md")
    case True
    then have step: "scan_stations plat plon (x # xs) md ns =
        scan_stations plat plon xs (Finite dx) (Some x)"
      using scan_stations_step [OF dx] by simp
    from Cons.IH [OF rest, of "Finite dx" "Some x"] show ?thesis
    proof (elim disjE conjE exE)
      assume a: "scan_stations plat plon xs (Finite dx) (Some x) = Inr (Some x, Finite dx)"
        and b: "\<forall>t\<in>set xs. \<exists>d. station_distance plat plon t = Inr d \<and> \<not> float_lt d (Finite dx)"
      have c: "\<forall>t\<in>set xs. \<exists>d'. station_distance plat plon t = Inr d' \<and> dx \<le> d'"
      proof
        fix t assume "t \<in> set xs"
        with b obtain d where "station_distance plat plon t = Inr d" "\<not> float_lt d (Finite dx)"
          by blast
        then show "\<exists>d'. station_distance plat plon t = Inr d' \<and> dx \<le> d'" by simp
      qed
      show ?thesis
        apply (rule disjI2)
        apply (rule exI [of _ "[]"], rule exI [of _ x], rule exI [of _ xs], rule exI [of _ dx])
        using a step dx True c by simp
    next
      fix pre s post d
      assume a: "xs = pre @ s # post"
        "scan_stations plat plon xs (Finite dx) (Some x) = Inr (Some s, Finite d)"
        "station_distance plat plon s = Inr d" "float_lt d (Finite dx)"
        "\<forall>t\<in>set pre. \<exists>d'. station_distance plat plon t = Inr d' \<and> d < d'"
        "\<forall>t\<in>set post. \<exists>d'. station_distance plat plon t = Inr d' \<and> d \<le> d'"
      have lt: "d < dx" using a(4) by simp
      have m: "float_lt d md" using lt True by (rule float_lt_trans)
      show ?thesis
        apply (rule disjI2)
        apply (rule exI [of _ "x # pre"], rule exI [of _ s], rule exI [of _ post], rule exI [of _ d])
        using a(1,2,3,5,6) step dx lt m by simp
    qed
  next
    case False
    then have step: "scan_stations plat plon (x # xs) md ns = scan_stations plat plon xs md ns"
      using scan_stations_step [OF dx] by simp
    from Cons.IH [OF rest, of md ns] show ?thesis
    proof (elim disjE conjE exE)
      assume a: "scan_stations plat plon xs md ns = Inr (ns, md)"
        and b: "\<forall>t\<in>set xs. \<exists>d. station_distance plat plon t = Inr d \<and> \<not> float_lt d md"
      show ?thesis
        apply (rule disjI1)
        using a b step dx False by simp
    next
      fix pre s post d
      assume a: "xs = pre @ s # post"
        "scan_stations plat plon xs md ns = Inr (Some s, Finite d)"
        "station_distance plat plon s = Inr d" "float_lt d md"
        "\<forall>t\<in>set pre. \<exists>d'. station_distance plat plon t = Inr d' \<and> d < d'"
        "\<forall>t\<in>set post. \<exists>d'. station_distance plat plon t = Inr d' \<and> d \<le> d'"
      have lt: "d < dx" using a(4) False by (rule float_lt_not)
      show ?thesis
        apply (rule disjI2)
        apply (rule exI [of _ "x # pre"], rule exI [of _ s], rule exI [of _ post], rule exI [of _ d])
        using a step dx lt by simp
    qed
  qed
qed

lemma nearest_is_least:
  assumes "is_number pandal_lat" "is_number pandal_lon"
    and "metro_stations \<noteq> []"
    and "\<forall>s\<in>set metro_stations. has_coordinates s"
  shows "\<exists>s d. find_nearest_metro_station pandal_lat pandal_lon metro_stations =
             Inr (Some s, Finite d) \<and>
           s \<in> set metro_stations \<and> station_distance pandal_lat pandal_lon s = Inr d \<and>
           (\<forall>t\<in>set metro_stations.
              \<exists>d'. station_distance pandal_lat pandal_lon t = Inr d' \<and> d \<le> d')"
proof -
  have all: "\<forall>s\<in>set metro_stations. \<exists>d. station_distance pandal_lat pandal_lon s = Inr d"
    using assms(1,2,4) station_distance_numbers by blast
  from scan_stations_spec [OF all, of PosInf None] show ?thesis
  proof (elim disjE conjE exE)
    assume "\<forall>t\<in>set metro_stations.
      \<exists>d. station_distance pandal_lat pandal_lon t = Inr d \<and> \<not> float_lt d PosInf"
    then have False using assms(3) by (cases metro_stations) auto
    then show ?thesis ..
  next
    fix pre s post d
    assume f: "metro_stations = pre @ s # post"
      "scan_stations pandal_lat pandal_lon metro_stations PosInf None = Inr (Some s, Finite d)"
      "station_distance pandal_lat pandal_lon s = Inr d"
      "\<forall>t\<in>set pre. \<exists>d'. station_distance pandal_lat pandal_lon t = Inr d' \<and> d < d'"
      "\<forall>t\<in>set post. \<exists>d'. station_distance pandal_lat pandal_lon t = Inr d' \<and> d \<le> d'"
    have "\<exists>d'. station_distance pandal_lat pandal_lon t = Inr d' \<and> d \<le> d'"
      if "t \<in> set metro_stations" for t
    proof -
      from that consider "t \<in> set pre" | "t = s" | "t \<in> set post" using f(1) by auto
      then show ?thesis
      proof cases
        case 1
        with f(4) obtain d' where "station_distance pandal_lat pandal_lon t = Inr d'" "d < d'"
          by blast
        then show ?thesis by (intro exI [of _ d']) simp
      next
        case 2
        then show ?thesis using f(3) by simp
      next
        case 3
        then show ?thesis using f(5) by blast
      qed
    qed
    moreover have "s \<in> set metro_stations" using f(1) by simp
    ultimately show ?thesis using f(2,3) unfolding find_nearest_metro_station_def by blast
  qed
qed

text \<open>
  Claim C1. For a non-empty list of stations that carry coordinates and a query point
  given by two numbers, the search returns a station \<open>s\<close> of the list with its distance
  \<open>d\<close> to the query point, where every station before \<open>s\<close> in the list is strictly
  farther and every station after it is at least as far: \<open>s\<close> is the first station of
  minimal distance, so on a tie the earlier one wins.
\<close>

theorem nearest_is_first_minimum:
  assumes "is_number pandal_lat" "is_number pandal_lon"
    and "metro_stations \<noteq> []"
    and "\<forall>s\<in>set metro_stations. has_coordinates s"
  shows "\<exists>pre s post d. metro_stations = pre @ s # post \<and>
           find_nearest_metro_station pandal_lat pandal_lon metro_stations =
             Inr (Some s, Finite d) \<and>
           station_distance pandal_lat pandal_lon s = Inr d \<and>
           (\<forall>t\<in>set pre. \<exists>d'. station_distance pandal_lat pandal_lon t = Inr d' \<and> d < d') \<and>
           (\<forall>t\<in>set post. \<exists>d'. station_distance pandal_lat pandal_lon t = Inr d' \<and> d \<le> d')"
proof -
  have all: "\<forall>s\<in>set metro_stations. \<exists>d. station_distance pandal_lat pandal_lon s = Inr d"
    using assms(1,2,4) station_distance_numbers by blast
  from assms(3) obtain x xs where xs: "metro_stations = x # xs" by (cases metro_stations) auto
  from scan_stations_spec [OF all, of PosInf None] show ?thesis
  proof (elim disjE conjE)
    assume "\<forall>t\<in>set metro_stations.
      \<exists>d. station_distance pandal_lat pandal_lon t = Inr d \<and> \<not> float_lt d PosInf"
    then have False using xs by auto
    then show ?thesis ..
  next
    assume "\<exists>pre s post d. metro_stations = pre @ s # post \<and>
      scan_stations pandal_lat pandal_lon metro_stations PosInf None = Inr (Some s, Finite d) \<and>
      station_distance pandal_lat pandal_lon s = Inr d \<and> float_lt d PosInf \<and>
      (\<forall>t\<in>set pre. \<exists>d'. station_distance pandal_lat pandal_lon t = Inr d' \<and> d < d') \<and>
      (\<forall>t\<in>set post. \<exists>d'. station_distance pandal_lat pandal_lon t = Inr d' \<and> d \<le> d')"
    then show ?thesis unfolding find_nearest_metro_station_def by blast
  qed
qed

text \<open>
  A tie: two stations at the coordinates of the query point, told apart by their codes.
  Both are at distance 0 and the first one is returned.
\<close>

theorem nearest_is_first_minimum_witness:
  "(\<exists>pre s post d.
      [kavi_subhash, setitem kavi_subhash ''short_code'' (JStr ''TWIN'')] = pre @ s # post \<and>
      find_nearest_metro_station (JNum 22.4721796) (JNum 88.3952919)
        [kavi_subhash, setitem kavi_subhash ''short_code'' (JStr ''TWIN'')] =
        Inr (Some s, Finite d) \<and>
      station_distance (JNum 22.4721796) (JNum 88.3952919) s = Inr d \<and>
      (\<forall>t\<in>set pre. \<exists>d'.
         station_distance (JNum 22.4721796) (JNum 88.3952919) t = Inr d' \<and> d < d') \<and>
      (\<forall>t\<in>set post. \<exists>d'.
         station_distance (JNum 22.4721796) (JNum 88.3952919) t = Inr d' \<and> d \<le> d')) \<and>
   find_nearest_metro_station (JNum 22.4721796) (JNum 88.3952919)
     [kavi_subhash, setitem kavi_subhash ''short_code'' (JStr ''TWIN'')] =
     Inr (Some kavi_subhash, Finite 0)"
proof
  have n: "is_number (JNum 22.4721796)" "is_number (JNum 88.3952919)"
    by (simp_all add: is_number_def)
  have c: "\<forall>s\<in>set [kavi_subhash, setitem kavi_subhash ''short_code'' (JStr ''TWIN'')].
      has_coordinates s"
    by (simp add: has_coordinates_def kavi_subhash_def is_number_def)
  show "\<exists>pre s post d.
      [kavi_subhash, setitem kavi_subhash ''short_code'' (JStr ''TWIN'')] = pre @ s # post \<and>
      find_nearest_metro_station (JNum 22.4721796) (JNum 88.3952919)
        [kavi_subhash, setitem kavi_subhash ''short_code'' (JStr ''TWIN'')] =
        Inr (Some s, Finite d) \<and>
      station_distance (JNum 22.4721796) (JNum 88.3952919) s = Inr d \<and>
      (\<forall>t\<in>set pre. \<exists>d'.
         station_distance (JNum 22.4721796) (JNum 88.3952919) t = Inr d' \<and> d < d') \<and>
      (\<forall>t\<in>set post. \<exists>d'.
         station_distance (JNum 22.4721796) (JNum 88.3952919) t = Inr d' \<and> d \<le> d')"
    by (rule nearest_is_first_minimum [OF n _ c]) simp
  show "find_nearest_metro_station (JNum 22.4721796) (JNum 88.3952919)
     [kavi_subhash, setitem kavi_subhash ''short_code'' (JStr ''TWIN'')] =
     Inr (Some kavi_subhash, Finite 0)"
    by (simp add: find_nearest_metro_station_def kavi_subhash_def getitem_def
        haversine_distance_same_point)
qed

text \<open>
  Claim C2, as stated: the search on an empty collection raises. It does not: the loop
  body never runs and the initial pair is returned.
\<close>

theorem nearest_of_empty_counterexample:
  "find_nearest_metro_station (JNum 22.5726) (JNum 88.3639) [] = Inr (None, PosInf) \<and>
   \<not> isl (find_nearest_metro_station (JNum 22.5726) (JNum 88.3639) [])"
  by (simp add: find_nearest_metro_station_def)

text \<open>
  Claim C2, amended. For every query point, the search on an empty collection returns
  the pair of \<^verbatim>\<open>None\<close> and positive infinity, without raising.
\<close>

theorem nearest_of_empty_returns_none:
  "find_nearest_metro_station pandal_lat pandal_lon [] = Inr (None, PosInf)"
  by (simp add: find_nearest_metro_station_def)

subsection \<open>The pipeline over the pandals\<close>

lemma map_of_setitem: "map_of (setitem d k v) = (map_of d)(k \<mapsto> v)"
  by (induction d) (auto simp: fun_eq_iff)

lemma map_of_dict_copy: "map_of (dict_copy d) k = map_option Json (map_of d k)"
  by (induction d) (auto simp: dict_copy_def)

lemma update_pandal_missing:
  "map_of p ''latitude'' = None \<or> map_of p ''longitude'' = None \<Longrightarrow>
   \<exists>k. update_pandal p stations = Inl (KeyError k)"
  by (auto simp: update_pandal_def getitem_def split: option.splits)

lemma update_pandals_append:
  "list_all2 (\<lambda>p u. update_pandal p stations = Inr u) ps us \<Longrightarrow>
   update_pandals (ps @ rest) stations acc = update_pandals rest stations (acc @ us)"
proof (induction ps arbitrary: us acc)
  case Nil
  then show ?case by simp
next
  case (Cons p ps)
  then obtain u us' where us: "us = u # us'" "update_pandal p stations = Inr u"
    "list_all2 (\<lambda>p u. update_pandal p stations = Inr u) ps us'"
    by (auto simp: list_all2_Cons1)
  show ?case using Cons.IH [OF us(3), of "acc @ [u]"] us(1,2) by simp
qed

lemma update_pandals_all:
  assumes "\<forall>p\<in>set ps. \<exists>u. update_pandal p stations = Inr u"
  shows "\<exists>us. update_pandals ps stations [] = Inr us \<and>
              list_all2 (\<lambda>p u. update_pandal p stations = Inr u) ps us"
proof -
  from assms have "\<exists>us. list_all2 (\<lambda>p u. update_pandal p stations = Inr u) ps us"
  proof (induction ps)
    case Nil
    then show ?case by simp
  next
    case (Cons p ps)
    then obtain u us where "update_pandal p stations = Inr u"
      "list_all2 (\<lambda>p u. update_pandal p stations = Inr u) ps us" by auto
    then have "list_all2 (\<lambda>p u. update_pandal p stations = Inr u) (p # ps) (u # us)" by simp
    then show ?case by blast
  qed
  then obtain us where us: "list_all2 (\<lambda>p u. update_pandal p stations = Inr u) ps us" ..
  from update_pandals_append [OF us, of "[]" "[]"] have "update_pandals ps stations [] = Inr us"
    by simp
  with us show ?thesis by blast
qed

lemma update_pandals_error:
  assumes "p \<in> set ps" "update_pandal p stations = Inl e"
  shows "\<exists>e'. update_pandals ps stations acc = Inl e'"
  using assms
proof (induction ps arbitrary: acc)
  case Nil
  then show ?case by simp
next
  case (Cons q ps)
  show ?case
  proof (cases "update_pandal q stations")
    case (Inl a)
    then show ?thesis by simp
  next
    case (Inr u)
    with Cons.prems have "p \<in> set ps" by auto
    from Cons.IH [OF this Cons.prems(2), of "acc @ [u]"] Inr show ?thesis by simp
  qed
qed

text \<open>What the loop body makes of a pandal with coordinates, given usable stations.\<close>

lemma update_pandal_result:
  assumes p: "has_coordinates p"
    and ne: "stations \<noteq> []"
    and st: "\<forall>s\<in>set stations. has_coordinates s \<and> has_metadata s"
  shows "\<exists>u plat plon s d.
           update_pandal p stations = Inr u \<and>
           map_of p ''latitude'' = Some plat \<and> map_of p ''longitude'' = Some plon \<and>
           s \<in> set stations \<and> station_distance plat plon s = Inr d \<and>
           (\<forall>t\<in>set stations. \<exists>d'. station_distance plat plon t = Inr d' \<and> d \<le> d') \<and>
           map_of u ''nearest_metro_distance_meters'' = Some (Float (Finite (py_round d 2))) \<and>
           (\<forall>k. k \<notin> set nearest_metro_keys \<longrightarrow> map_of u k = map_option Json (map_of p k))"
proof -
  from p obtain plat plon where
    ll: "map_of p ''latitude'' = Some plat" "map_of p ''longitude'' = Some plon"
    "is_number plat" "is_number plon"
    by (auto simp: has_coordinates_def split: option.splits)
  from st have co: "\<forall>s\<in>set stations. has_coordinates s" by blast
  from nearest_is_least [OF ll(3,4) ne co] obtain s d where
    f: "find_nearest_metro_station plat plon stations = Inr (Some s, Finite d)"
    and mem: "s \<in> set stations"
    and ds: "station_distance plat plon s = Inr d"
    and least: "\<forall>t\<in>set stations. \<exists>d'. station_distance plat plon t = Inr d' \<and> d \<le> d'"
    by blast
  from st mem have "has_coordinates s" "has_metadata s" by blast+
  then obtain sc nm loc lns la lo where keys:
    "map_of s ''short_code'' = Some sc" "map_of s ''name'' = Some nm"
    "map_of s ''location'' = Some loc" "map_of s ''lines'' = Some lns"
    "map_of s ''latitude'' = Some la" "map_of s ''longitude'' = Some lo"
    by (auto simp: has_coordinates_def has_metadata_def split: option.splits)
  define u where "u =
    setitem (setitem (setitem (setitem (setitem (setitem (setitem (dict_copy p)
      ''nearest_metro_id'' (Json sc)) ''nearest_metro_name'' (Json nm))
      ''nearest_metro_location'' (Json loc)) ''nearest_metro_lines'' (Json lns))
      ''nearest_metro_latitude'' (Json la)) ''nearest_metro_longitude'' (Json lo))
      ''nearest_metro_distance_meters'' (Float (Finite (py_round d 2)))"
  have res: "update_pandal p stations = Inr u"
    by (simp add: update_pandal_def getitem_def subscript_def ll f keys u_def)
  have dist: "map_of u ''nearest_metro_distance_meters'' = Some (Float (Finite (py_round d 2)))"
    by (simp add: u_def map_of_setitem)
  have pass: "\<forall>k. k \<notin> set nearest_metro_keys \<longrightarrow> map_of u k = map_option Json (map_of p k)"
    by (simp add: u_def map_of_setitem map_of_dict_copy nearest_metro_keys_def)
  from res ll(1,2) mem ds least dist pass show ?thesis by blast
qed

text \<open>
  Claim C7. When every query point carries coordinates and the station collection is
  non-empty (each station with coordinates and the four descriptive keys), the run
  writes an output whose data has exactly one record per query point, in the order of
  the input: record \<open>i\<close> keeps every field of query point \<open>i\<close> outside the added keys,
  and its \<^verbatim>\<open>nearest_metro_distance_meters\<close> is the least haversine distance from that
  point to a station, rounded to 2 decimal places.
\<close>

theorem one_record_per_point_in_order:
  assumes "\<forall>p\<in>set pandals. has_coordinates p"
    and "metro_stations \<noteq> []"
    and "\<forall>s\<in>set metro_stations. has_coordinates s \<and> has_metadata s"
  shows "\<exists>out. saved (process_pandals_with_metro_data pandals metro_stations) = Some out \<and>
           length (data out) = length pandals \<and>
           (\<forall>i<length pandals. \<exists>plat plon s d.
              map_of (pandals ! i) ''latitude'' = Some plat \<and>
              map_of (pandals ! i) ''longitude'' = Some plon \<and>
              s \<in> set metro_stations \<and> station_distance plat plon s = Inr d \<and>
              (\<forall>t\<in>set metro_stations. \<exists>d'. station_distance plat plon t = Inr d' \<and> d \<le> d') \<and>
              map_of (data out ! i) ''nearest_metro_distance_meters'' =
                Some (Float (Finite (py_round d 2))) \<and>
              (\<forall>k. k \<notin> set nearest_metro_keys \<longrightarrow>
                 map_of (data out ! i) k = map_option Json (map_of (pandals ! i) k)))"
proof -
  have "\<forall>p\<in>set pandals. \<exists>u. update_pandal p metro_stations = Inr u"
    using update_pandal_result [OF _ assms(2,3)] assms(1) by blast
  from update_pandals_all [OF this] obtain us where
    us: "update_pandals pandals metro_stations [] = Inr us"
    "list_all2 (\<lambda>p u. update_pandal p metro_stations = Inr u) pandals us" by blast
  define out where "out = \<lparr>statusCode = 200, data = us,
    metadata = \<lparr>total_pandals = length us, metro_stations_used = length metro_stations,
                 processing_completed = True\<rparr>\<rparr>"
  have s: "saved (process_pandals_with_metro_data pandals metro_stations) = Some out"
    by (simp add: process_pandals_with_metro_data_def us(1) out_def)
  have l: "length (data out) = length pandals"
    using us(2) by (simp add: out_def list_all2_lengthD)
  have "\<exists>plat plon s d.
      map_of (pandals ! i) ''latitude'' = Some plat \<and>
      map_of (pandals ! i) ''longitude'' = Some plon \<and>
      s \<in> set metro_stations \<and> station_distance plat plon s = Inr d \<and>
      (\<forall>t\<in>set metro_stations. \<exists>d'. station_distance plat plon t = Inr d' \<and> d \<le> d') \<and>
      map_of (data out ! i) ''nearest_metro_distance_meters'' =
        Some (Float (Finite (py_round d 2))) \<and>
      (\<forall>k. k \<notin> set nearest_metro_keys \<longrightarrow>
         map_of (data out ! i) k = map_option Json (map_of (pandals ! i) k))"
    if i: "i < length pandals" for i
  proof -
    have u: "update_pandal (pandals ! i) metro_stations = Inr (data out ! i)"
      using list_all2_nthD [OF us(2) i] by (simp add: out_def)
    have "has_coordinates (pandals ! i)" using assms(1) i by simp
    from update_pandal_result [OF this assms(2,3)] u show ?thesis by auto
  qed
  with s l show ?thesis by blast
qed

theorem one_record_per_point_in_order_witness:
  "(\<exists>out. saved (process_pandals_with_metro_data [pandal_at_kavi_subhash, pandal_elsewhere]
              [kavi_subhash, shahid_khudiram]) = Some out \<and>
      length (data out) = length [pandal_at_kavi_subhash, pandal_elsewhere] \<and>
      (\<forall>i<length [pandal_at_kavi_subhash, pandal_elsewhere]. \<exists>plat plon s d.
         map_of ([pandal_at_kavi_subhash, pandal_elsewhere] ! i) ''latitude'' = Some plat \<and>
         map_of ([pandal_at_kavi_subhash, pandal_elsewhere] ! i) ''longitude'' = Some plon \<and>
         s \<in> set [kavi_subhash, shahid_khudiram] \<and> station_distance plat plon s = Inr d \<and>
         (\<forall>t\<in>set [kavi_subhash, shahid_khudiram].
            \<exists>d'. station_distance plat plon t = Inr d' \<and> d \<le> d') \<and>
         map_of (data out ! i) ''nearest_metro_distance_meters'' =
           Some (Float (Finite (py_round d 2))) \<and>
         (\<forall>k. k \<notin> set nearest_metro_keys \<longrightarrow>
            map_of (data out ! i) k =
              map_option Json (map_of ([pandal_at_kavi_subhash, pandal_elsewhere] ! i) k)))) \<and>
   update_pandal pandal_at_kavi_subhash [kavi_subhash] =
     Inr [(''id'', Json (JNum 1)), (''name'', Json (JStr ''Pandal One'')),
          (''latitude'', Json (JNum 22.4721796)), (''longitude'', Json (JNum 88.3952919)),
          (''nearest_metro_id'', Json (JStr ''KKVS'')),
          (''nearest_metro_name'', Json (JStr ''Kavi Subhash'')),
          (''nearest_metro_location'', Json (JStr ''New Garia'')),
          (''nearest_metro_lines'', Json (JArr [JStr ''Blue Line'', JStr ''Orange Line''])),
          (''nearest_metro_latitude'', Json (JNum 22.4721796)),
          (''nearest_metro_longitude'', Json (JNum 88.3952919)),
          (''nearest_metro_distance_meters'', Float (Finite 0))]"
proof
  have p: "\<forall>p\<in>set [pandal_at_kavi_subhash, pandal_elsewhere]. has_coordinates p"
    by (simp add: has_coordinates_def pandal_at_kavi_subhash_def pandal_elsewhere_def
        is_number_def)
  have s: "\<forall>s\<in>set [kavi_subhash, shahid_khudiram]. has_coordinates s \<and> has_metadata s"
    by (simp add: has_coordinates_def has_metadata_def kavi_subhash_def shahid_khudiram_def
        is_number_def)
  show "\<exists>out. saved (process_pandals_with_metro_data [pandal_at_kavi_subhash, pandal_elsewhere]
              [kavi_subhash, shahid_khudiram]) = Some out \<and>
      length (data out) = length [pandal_at_kavi_subhash, pandal_elsewhere] \<and>
      (\<forall>i<length [pandal_at_kavi_subhash, pandal_elsewhere]. \<exists>plat plon s d.
         map_of ([pandal_at_kavi_subhash, pandal_elsewhere] ! i) ''latitude'' = Some plat \<and>
         map_of ([pandal_at_kavi_subhash, pandal_elsewhere] ! i) ''longitude'' = Some plon \<and>
         s \<in> set [kavi_subhash, shahid_khudiram] \<and> station_distance plat plon s = Inr d \<and>
         (\<forall>t\<in>set [kavi_subhash, shahid_khudiram].
            \<exists>d'. station_distance plat plon t = Inr d' \<and> d \<le> d') \<and>
         map_of (data out ! i) ''nearest_metro_distance_meters'' =
           Some (Float (Finite (py_round d 2))) \<and>
         (\<forall>k. k \<notin> set nearest_metro_keys \<longrightarrow>
            map_of (data out ! i) k =
              map_option Json (map_of ([pandal_at_kavi_subhash, pandal_elsewhere] ! i) k)))"
    by (rule one_record_per_point_in_order [OF p _ s]) simp
  show "update_pandal pandal_at_kavi_subhash [kavi_subhash] =
     Inr [(''id'', Json (JNum 1)), (''name'', Json (JStr ''Pandal One'')),
          (''latitude'', Json (JNum 22.4721796)), (''longitude'', Json (JNum 88.3952919)),
          (''nearest_metro_id'', Json (JStr ''KKVS'')),
          (''nearest_metro_name'', Json (JStr ''Kavi Subhash'')),
          (''nearest_metro_location'', Json (JStr ''New Garia'')),
          (''nearest_metro_lines'', Json (JArr [JStr ''Blue Line'', JStr ''Orange Line''])),
          (''nearest_metro_latitude'', Json (JNum 22.4721796)),
          (''nearest_metro_longitude'', Json (JNum 88.3952919)),
          (''nearest_metro_distance_meters'', Float (Finite 0))]"
    by (simp add: update_pandal_def pandal_at_kavi_subhash_def kavi_subhash_def getitem_def
        subscript_def find_nearest_metro_station_def haversine_distance_same_point
        dict_copy_def py_round_def round_half_even_def)
qed

text \<open>
  Claim C3, as stated: a query point without coordinates is skipped and the others are
  still enriched. On a batch of three whose second point has no latitude, the run ends
  with KeyError and writes nothing, although the first point was processed.
\<close>

theorem malformed_point_counterexample:
  "process_pandals_with_metro_data
     [pandal_at_kavi_subhash, pandal_without_latitude, pandal_at_kavi_subhash] [kavi_subhash] =
     \<lparr>saved = None, raised = Some (KeyError ''latitude'')\<rparr>"
  by (simp add: process_pandals_with_metro_data_def update_pandal_def
      pandal_at_kavi_subhash_def pandal_without_latitude_def kavi_subhash_def getitem_def
      subscript_def find_nearest_metro_station_def haversine_distance_same_point
      dict_copy_def)

text \<open>
  Claim C3, amended. A query point that lacks its latitude or its longitude is not
  skipped: whatever the other points and the stations are, the run ends with an exception
  and writes no output, so no point of the batch gets an enriched record.
\<close>

theorem malformed_point_aborts_run:
  assumes "p \<in> set pandals"
    and "map_of p ''latitude'' = None \<or> map_of p ''longitude'' = None"
  shows "saved (process_pandals_with_metro_data pandals metro_stations) = None \<and>
         (\<exists>e. raised (process_pandals_with_metro_data pandals metro_stations) = Some e)"
proof -
  from update_pandal_missing [OF assms(2)] obtain k where
    "update_pandal p metro_stations = Inl (KeyError k)" by blast
  from update_pandals_error [OF assms(1) this] obtain e where
    "update_pandals pandals metro_stations [] = Inl e" by blast
  then show ?thesis by (simp add: process_pandals_with_metro_data_def)
qed

theorem malformed_point_aborts_run_witness:
  "saved (process_pandals_with_metro_data
       [pandal_at_kavi_subhash, pandal_without_latitude, pandal_elsewhere]
       [kavi_subhash, shahid_khudiram]) = None \<and>
   (\<exists>e. raised (process_pandals_with_metro_data
       [pandal_at_kavi_subhash, pandal_without_latitude, pandal_elsewhere]
       [kavi_subhash, shahid_khudiram]) = Some e)"
proof -
  have m: "pandal_without_latitude \<in>
      set [pandal_at_kavi_subhash, pandal_without_latitude, pandal_elsewhere]" by simp
  have k: "map_of pandal_without_latitude ''latitude'' = None \<or>
      map_of pandal_without_latitude ''longitude'' = None"
    by (simp add: pandal_without_latitude_def)
  show ?thesis by (rule malformed_point_aborts_run [OF m k])
qed

section \<open>Properties of fetch\_metro\_details.py\<close>

text \<open>The recursive equations of these two functions are applied by hand, on numerals.\<close>

declare digits_of.simps [simp del]
declare findall.simps [simp del]

subsection \<open>Rounding\<close>

lemma round_half_even_of_int [simp]: "round_half_even (of_int k) = k"
  by (simp add: round_half_even_def)

lemma round_half_even_numeral [simp]: "round_half_even (numeral n) = numeral n"
  using round_half_even_of_int [of "numeral n"] by simp

lemma round_half_even_zero [simp]: "round_half_even 0 = 0"
  using round_half_even_of_int [of 0] by simp

lemma round_half_even_cases:
  "round_half_even x = \<lfloor>x\<rfloor> \<or> (round_half_even x = \<lfloor>x\<rfloor> + 1 \<and> of_int \<lfloor>x\<rfloor> < x)"
  by (auto simp: round_half_even_def Let_def)

lemma round_half_even_ge: "of_int n \<le> x \<Longrightarrow> n \<le> round_half_even x"
proof -
  assume "of_int n \<le> x"
  then have "n \<le> \<lfloor>x\<rfloor>" by (simp add: le_floor_iff)
  with round_half_even_cases [of x] show ?thesis by auto
qed

lemma round_half_even_le: "x \<le> of_int n \<Longrightarrow> round_half_even x \<le> n"
proof -
  assume a: "x \<le> of_int n"
  then have f: "\<lfloor>x\<rfloor> \<le> n" by (simp add: floor_le_iff)
  from round_half_even_cases [of x] show ?thesis
  proof
    assume "round_half_even x = \<lfloor>x\<rfloor>"
    with f show ?thesis by simp
  next
    assume b: "round_half_even x = \<lfloor>x\<rfloor> + 1 \<and> of_int \<lfloor>x\<rfloor> < x"
    then have "of_int \<lfloor>x\<rfloor> < (of_int n :: real)" using a by linarith
    then have "\<lfloor>x\<rfloor> < n" by simp
    with b show ?thesis by simp
  qed
qed

lemma py_round_ge: "of_int a \<le> x \<Longrightarrow> of_int a \<le> py_round x n"
proof -
  assume "of_int a \<le> x"
  then have "of_int (a * 10 ^ n) \<le> x * 10 ^ n" by (simp add: mult_right_mono)
  then have "a * 10 ^ n \<le> round_half_even (x * 10 ^ n)" by (rule round_half_even_ge)
  then have "(of_int (a * 10 ^ n) :: real) \<le> of_int (round_half_even (x * 10 ^ n))"
    by (simp only: of_int_le_iff)
  then show ?thesis by (simp add: py_round_def field_simps)
qed

lemma py_round_le: "x \<le> of_int b \<Longrightarrow> py_round x n \<le> of_int b"
proof -
  assume "x \<le> of_int b"
  then have "x * 10 ^ n \<le> of_int (b * 10 ^ n)" by (simp add: mult_right_mono)
  then have "round_half_even (x * 10 ^ n) \<le> b * 10 ^ n" by (rule round_half_even_le)
  then have "(of_int (round_half_even (x * 10 ^ n)) :: real) \<le> of_int (b * 10 ^ n)"
    by (simp only: of_int_le_iff)
  then show ?thesis by (simp add: py_round_def field_simps)
qed

lemma py_round_idem: "py_round (py_round x n) n = py_round x n"
proof -
  define r where "r = round_half_even (x * 10 ^ n)"
  have "py_round x n * 10 ^ n = of_int r"
    by (simp add: py_round_def r_def)
  then have "py_round (py_round x n) n = of_int r / 10 ^ n"
    by (simp add: py_round_def [of "py_round x n"])
  also have "\<dots> = py_round x n" by (simp add: py_round_def r_def)
  finally show ?thesis .
qed

lemma py_round_box:
  assumes "in_kolkata_box lat lng"
  shows "in_kolkata_box (py_round lat 7) (py_round lng 7)"
proof -
  from assms have a: "of_int 22 \<le> lat" "lat \<le> of_int 23" "of_int 87 \<le> lng" "lng \<le> of_int 89"
    by (simp_all add: in_kolkata_box_def)
  from py_round_ge [OF a(1), of 7] py_round_le [OF a(2), of 7]
    py_round_ge [OF a(3), of 7] py_round_le [OF a(4), of 7]
  show ?thesis by (simp add: in_kolkata_box_def)
qed


subsection \<open>The primary resolver\<close>

lemma py_float_error: "py_float s = Inl e \<Longrightarrow> e = ValueError"
  by (auto simp: py_float_def Let_def split: if_splits)

lemma try_matches_step:
  "try_matches (m # ms) =
     (case candidate_value m of
        None \<Rightarrow> Inl ValueError
      | Some (lat_f, lng_f) \<Rightarrow>
          if in_kolkata_box lat_f lng_f
          then Inr (Some (py_round lat_f 7, py_round lng_f 7))
          else try_matches ms)"
  by (auto simp: candidate_value_def in_kolkata_box_def ebind_def
      split: list.splits sum.splits dest: py_float_error)

lemma try_matches_append:
  "try_matches (a @ b) =
     (case try_matches a of
        Inl e \<Rightarrow> Inl e
      | Inr (Some found) \<Rightarrow> Inr (Some found)
      | Inr None \<Rightarrow> try_matches b)"
proof (induction a)
  case Nil
  show ?case by simp
next
  case (Cons m a)
  show ?case
    unfolding append_Cons try_matches_step Cons.IH
    by (simp split: option.splits prod.splits)
qed

lemma try_patterns_candidates:
  "try_patterns ps text = try_matches (concat (map (\<lambda>pattern. findall pattern text) ps))"
proof (induction ps)
  case Nil
  show ?case by simp
next
  case (Cons p ps)
  have "(if findall p text \<noteq> [] then try_matches (findall p text) else Inr None) =
      try_matches (findall p text)" by simp
  then show ?case
    by (simp add: Let_def try_matches_append Cons.IH split: sum.splits option.splits)
qed

lemma try_matches_rejected:
  "\<forall>c\<in>set ms. rejected c \<Longrightarrow> try_matches ms = Inr None"
proof (induction ms)
  case Nil
  show ?case by simp
next
  case (Cons m ms)
  then have "rejected m" "try_matches ms = Inr None" by simp_all
  then show ?case
    unfolding try_matches_step by (auto simp: rejected_def split: option.splits)
qed

lemma try_matches_hit:
  assumes "ms = pre @ m # post" "\<forall>c\<in>set pre. rejected c"
    and "candidate_value m = Some (lat_f, lng_f)" "in_kolkata_box lat_f lng_f"
  shows "try_matches ms = Inr (Some (py_round lat_f 7, py_round lng_f 7))"
proof -
  have "try_matches (m # post) = Inr (Some (py_round lat_f 7, py_round lng_f 7))"
    unfolding try_matches_step using assms(3,4) by simp
  then show ?thesis
    using try_matches_rejected [OF assms(2)] by (simp add: assms(1) try_matches_append)
qed

lemma try_matches_miss:
  "\<forall>c\<in>set ms. \<not> accepted c \<Longrightarrow> try_matches ms \<noteq> Inr (Some found)"
proof (induction ms)
  case Nil
  show ?case by simp
next
  case (Cons m ms)
  then have "\<not> accepted m" "try_matches ms \<noteq> Inr (Some found)" by simp_all
  then show ?case
    unfolding try_matches_step by (auto simp: accepted_def split: option.splits)
qed

lemma try_matches_sound:
  "try_matches ms = Inr (Some (a, b)) \<Longrightarrow>
   in_kolkata_box a b \<and> py_round a 7 = a \<and> py_round b 7 = b"
proof (induction ms)
  case Nil
  then show ?case by simp
next
  case (Cons m ms)
  show ?case
  proof (cases "candidate_value m")
    case None
    with Cons.prems show ?thesis unfolding try_matches_step by simp
  next
    case (Some v)
    obtain la lo where v: "v = (la, lo)" by (cases v)
    show ?thesis
    proof (cases "in_kolkata_box la lo")
      case True
      with Cons.prems Some v have "a = py_round la 7" "b = py_round lo 7"
        unfolding try_matches_step by simp_all
      with True show ?thesis by (simp add: py_round_box py_round_idem)
    next
      case False
      with Cons.prems Some v have "try_matches ms = Inr (Some (a, b))"
        unfolding try_matches_step by simp
      then show ?thesis by (rule Cons.IH)
    qed
  qed
qed

lemma primary_on_response:
  assumes "http (Get ''https://www.google.com/maps/search/''
             ''{station_name} metro station {location}'' station_name location) =
           Response 200 text"
  shows "get_google_maps_coordinates http station_name location =
           (case try_matches (candidates text) of
              Inl e \<Rightarrow> (None, None)
            | Inr (Some (lat, lng)) \<Rightarrow> (Some lat, Some lng)
            | Inr None \<Rightarrow> (None, None))"
  by (simp add: get_google_maps_coordinates_def assms try_patterns_candidates candidates_def)

lemma primary_hit:
  assumes "http (Get ''https://www.google.com/maps/search/''
             ''{station_name} metro station {location}'' station_name location) =
           Response 200 text"
    and "candidates text = pre @ m # post" "\<forall>c\<in>set pre. rejected c"
    and "candidate_value m = Some (lat_f, lng_f)" "in_kolkata_box lat_f lng_f"
  shows "get_google_maps_coordinates http station_name location =
           (Some (py_round lat_f 7), Some (py_round lng_f 7))"
  using try_matches_hit [OF assms(2,3,4,5)] by (simp add: primary_on_response [of http station_name location "text", OF assms(1)])

lemma primary_miss:
  assumes "http (Get ''https://www.google.com/maps/search/''
             ''{station_name} metro station {location}'' station_name location) =
           Response 200 text"
    and "\<forall>c\<in>set (candidates text). \<not> accepted c"
  shows "get_google_maps_coordinates http station_name location = (None, None)"
  using try_matches_miss [OF assms(2)]
  by (auto simp: primary_on_response [of http station_name location "text", OF assms(1)] split: sum.splits option.splits)

lemma try_matches_refused:
  assumes "ms = pre @ m # post" "\<forall>c\<in>set pre. rejected c" "candidate_value m = None"
  shows "try_matches ms = Inl ValueError"
proof -
  have "try_matches (m # post) = Inl ValueError"
    unfolding try_matches_step using assms(3) by simp
  then show ?thesis
    using try_matches_rejected [OF assms(2)] by (simp add: assms(1) try_matches_append)
qed

lemma primary_refused:
  assumes "http (Get ''https://www.google.com/maps/search/''
             ''{station_name} metro station {location}'' station_name location) =
           Response 200 text"
    and "candidates text = pre @ m # post" "\<forall>c\<in>set pre. rejected c"
    and "candidate_value m = None"
  shows "get_google_maps_coordinates http station_name location = (None, None)"
  using try_matches_refused [OF assms(2,3,4)]
  by (simp add: primary_on_response [of http station_name location "text", OF assms(1)])

subsection \<open>The alternative resolver\<close>

lemma accepted_not_passed_over: "accepted c \<Longrightarrow> \<not> passed_over c"
  by (auto simp: accepted_def passed_over_def candidate_value_def in_kolkata_box_def
      split: list.splits sum.splits option.splits if_splits)

lemma try_first_matches_empty:
  "findall p text = [] \<Longrightarrow> try_first_matches (p # ps) text = try_first_matches ps text"
  by simp

lemma try_first_matches_accepted:
  "findall p text = c # cs \<Longrightarrow> candidate_value c = Some (lat_f, lng_f) \<Longrightarrow>
   in_kolkata_box lat_f lng_f \<Longrightarrow>
   try_first_matches (p # ps) text = Inr (Some (lat_f, lng_f))"
  by (auto simp: candidate_value_def in_kolkata_box_def split: list.splits sum.splits)

lemma try_first_matches_passed_over:
  "findall p text = c # cs \<Longrightarrow> passed_over c \<Longrightarrow>
   try_first_matches (p # ps) text = try_first_matches ps text"
  by (auto simp: passed_over_def ebind_def split: list.splits sum.splits if_splits)

lemma try_first_matches_refused:
  "findall p text = c # cs \<Longrightarrow> \<not> accepted c \<Longrightarrow> \<not> passed_over c \<Longrightarrow>
   \<exists>e. try_first_matches (p # ps) text = Inl e"
  by (auto simp: accepted_def passed_over_def candidate_value_def in_kolkata_box_def ebind_def
      split: list.splits sum.splits option.splits if_splits)

lemma try_first_matches_hit:
  assumes "concat (map (\<lambda>pattern. take 1 (findall pattern text)) ps) = pre @ m # post"
    and "\<forall>c\<in>set pre. passed_over c"
    and "candidate_value m = Some (lat_f, lng_f)" "in_kolkata_box lat_f lng_f"
  shows "try_first_matches ps text = Inr (Some (lat_f, lng_f))"
  using assms(1,2)
proof (induction ps arbitrary: pre)
  case Nil
  then show ?case by simp
next
  case (Cons p ps)
  show ?case
  proof (cases "findall p text")
    case Nil
    with Cons.prems have "concat (map (\<lambda>pattern. take 1 (findall pattern text)) ps) = pre @ m # post"
      by simp
    from Cons.IH [OF this Cons.prems(2)] show ?thesis
      by (simp only: try_first_matches_empty [OF Nil])
  next
    case (Cons c cs)
    note f = Cons
    from f Cons.prems have e: "c # concat (map (\<lambda>pattern. take 1 (findall pattern text)) ps) =
        pre @ m # post" by simp
    show ?thesis
    proof (cases pre)
      case Nil
      with e have "c = m" by simp
      with try_first_matches_accepted [OF f _ assms(4)] assms(3) show ?thesis by simp
    next
      case (Cons c' pre')
      with e have c: "c' = c"
        "concat (map (\<lambda>pattern. take 1 (findall pattern text)) ps) = pre' @ m # post" by simp_all
      from Cons.prems(2) Cons c have r: "passed_over c" "\<forall>c\<in>set pre'. passed_over c" by simp_all
      from Cons.IH [OF c(2) r(2)] show ?thesis
        by (simp only: try_first_matches_passed_over [OF f r(1)])
    qed
  qed
qed

lemma try_first_matches_none:
  assumes "ends_without_pair (concat (map (\<lambda>pattern. take 1 (findall pattern text)) ps))"
  shows "try_first_matches ps text \<noteq> Inr (Some found)"
  using assms
proof (induction ps)
  case Nil
  show ?case by simp
next
  case (Cons p ps)
  show ?case
  proof (cases "findall p text")
    case Nil
    with Cons.prems have "ends_without_pair (concat (map (\<lambda>pattern. take 1 (findall pattern text)) ps))"
      by simp
    from Cons.IH [OF this] show ?thesis by (simp only: try_first_matches_empty [OF Nil]) simp
  next
    case (Cons c cs)
    note f = Cons
    from f Cons.prems have e: "ends_without_pair
        (c # concat (map (\<lambda>pattern. take 1 (findall pattern text)) ps))" by simp
    then have na: "\<not> accepted c" by (simp split: if_splits)
    show ?thesis
    proof (cases "passed_over c")
      case True
      with e na have "ends_without_pair (concat (map (\<lambda>pattern. take 1 (findall pattern text)) ps))"
        by simp
      from Cons.IH [OF this] show ?thesis
        by (simp only: try_first_matches_passed_over [OF f True]) simp
    next
      case False
      from try_first_matches_refused [OF f na False, of ps] show ?thesis by auto
    qed
  qed
qed

lemma try_requests_skip:
  "yields_nothing http req \<Longrightarrow> try_requests http (req # rest) = try_requests http rest"
proof (cases "http req")
  case RequestException
  then show ?thesis by simp
next
  case (Response status_code body)
  assume n: "yields_nothing http req"
  show ?thesis
  proof (cases "status_code = 200")
    case False
    with Response show ?thesis by simp
  next
    case True
    with n Response have "ends_without_pair (first_candidates body)"
      by (simp add: yields_nothing_def)
    then have "try_first_matches patterns body \<noteq> Inr (Some found)" for found
      unfolding first_candidates_def by (rule try_first_matches_none)
    with Response True show ?thesis by (auto split: sum.splits option.splits)
  qed
qed

lemma try_requests_all_skipped:
  "\<forall>q\<in>set reqs. yields_nothing http q \<Longrightarrow> try_requests http (reqs @ rest) = try_requests http rest"
proof (induction reqs)
  case Nil
  show ?case by simp
next
  case (Cons q reqs)
  then have "yields_nothing http q" "try_requests http (reqs @ rest) = try_requests http rest"
    by simp_all
  then show ?case by (simp only: append_Cons try_requests_skip)
qed

lemma alternative_hit:
  assumes "alternative_requests station_name location = before @ req # after"
    and "\<forall>q\<in>set before. yields_nothing http q"
    and "http req = Response 200 text"
    and "first_candidates text = pre @ m # post" "\<forall>c\<in>set pre. passed_over c"
    and "candidate_value m = Some (lat_f, lng_f)" "in_kolkata_box lat_f lng_f"
  shows "get_coordinates_alternative http station_name location = (Some lat_f, Some lng_f)"
proof -
  have "try_first_matches patterns text = Inr (Some (lat_f, lng_f))"
    using assms(4) unfolding first_candidates_def
    by (rule try_first_matches_hit [OF _ assms(5,6,7)])
  then have "try_requests http (req # after) = Some (lat_f, lng_f)"
    using assms(3) by simp
  then have "try_requests http (alternative_requests station_name location) = Some (lat_f, lng_f)"
    by (simp only: assms(1) try_requests_all_skipped [OF assms(2)])
  then show ?thesis
    by (simp add: get_coordinates_alternative_def alternative_requests_def)
qed

lemma alternative_miss:
  assumes "\<forall>q\<in>set (alternative_requests station_name location). yields_nothing http q"
  shows "get_coordinates_alternative http station_name location = (None, None)"
proof -
  from try_requests_all_skipped [OF assms, of "[]"]
  have "try_requests http (alternative_requests station_name location) = None" by simp
  then show ?thesis
    by (simp add: get_coordinates_alternative_def alternative_requests_def)
qed

text \<open>
  The first matches of a response either give no pair, or some first match is accepted
  after first matches that are all passed over: the two cases leave nothing out.
\<close>

lemma ends_without_pair_or_hit:
  "ends_without_pair ms \<or>
   (\<exists>pre m post. ms = pre @ m # post \<and> (\<forall>c\<in>set pre. passed_over c) \<and> accepted m)"
proof (induction ms)
  case Nil
  show ?case by simp
next
  case (Cons m ms)
  show ?case
  proof (cases "accepted m")
    case True
    then have "m # ms = [] @ m # ms \<and> (\<forall>c\<in>set []. passed_over c) \<and> accepted m" by simp
    then show ?thesis by blast
  next
    case False
    note na = False
    show ?thesis
    proof (cases "passed_over m")
      case False
      with na show ?thesis by simp
    next
      case True
      from Cons.IH show ?thesis
      proof
        assume "ends_without_pair ms"
        with na True show ?thesis by simp
      next
        assume "\<exists>pre m' post. ms = pre @ m' # post \<and> (\<forall>c\<in>set pre. passed_over c) \<and> accepted m'"
        then obtain pre m' post where h: "ms = pre @ m' # post" "\<forall>c\<in>set pre. passed_over c"
          "accepted m'" by blast
        with True have "m # ms = (m # pre) @ m' # post \<and> (\<forall>c\<in>set (m # pre). passed_over c) \<and>
          accepted m'" by simp
        then show ?thesis by blast
      qed
    qed
  qed
qed

text \<open>
  Claim C10. Whatever the network answers, the primary resolver returns either the pair
  of Nones, or a latitude and a longitude with \<open>22 \<le> lat \<le> 23\<close> and \<open>87 \<le> lng \<le> 89\<close>
  that are both multiples of \<open>10\<^sup>-\<^sup>7\<close> (rounding them to 7 places changes nothing). It never
  returns one number and one None, nor a pair outside the box.
\<close>

theorem resolver_returns_nothing_or_pair_in_box:
  "get_google_maps_coordinates http station_name location = (None, None) \<or>
   (\<exists>lat lng. get_google_maps_coordinates http station_name location = (Some lat, Some lng) \<and>
      22 \<le> lat \<and> lat \<le> 23 \<and> 87 \<le> lng \<and> lng \<le> 89 \<and>
      py_round lat 7 = lat \<and> py_round lng 7 = lng)"
proof -
  obtain answer where a: "http (Get ''https://www.google.com/maps/search/''
      ''{station_name} metro station {location}'' station_name location) = answer" by simp
  show ?thesis
  proof (cases answer)
  case RequestException
  with a show ?thesis by (simp add: get_google_maps_coordinates_def)
next
  case (Response status_code body)
  note Response = a [unfolded Response]
  show ?thesis
  proof (cases "status_code = 200")
    case False
    with Response show ?thesis by (simp add: get_google_maps_coordinates_def)
  next
    case True
    with Response have r: "http (Get ''https://www.google.com/maps/search/''
             ''{station_name} metro station {location}'' station_name location) =
           Response 200 body" by simp
    show ?thesis
    proof (cases "try_matches (candidates body)")
      case (Inl e)
      then show ?thesis by (simp add: primary_on_response [of http station_name location body, OF r])
    next
      case (Inr found)
      show ?thesis
      proof (cases found)
        case None
        with Inr show ?thesis by (simp add: primary_on_response [of http station_name location body, OF r])
      next
        case (Some v)
        obtain a b where v: "v = (a, b)" by (cases v)
        from Inr Some v have t: "try_matches (candidates body) = Inr (Some (a, b))" by simp
        from try_matches_sound [OF t] t show ?thesis
          by (simp add: primary_on_response [of http station_name location body, OF r]
              in_kolkata_box_def)
      qed
    qed
  qed
qed
qed

subsection \<open>Responses used as examples\<close>

lemma candidates_inside: "candidates ''@22.5726,88.3639'' = [[''22.5726'', ''88.3639'']]"
  by code_simp

lemma candidates_outside: "candidates ''@28.6139,77.2090'' = [[''28.6139'', ''77.2090'']]"
  by code_simp

lemma first_candidates_inside: "first_candidates ''@22.5726,88.3639'' = [[''22.5726'', ''88.3639'']]"
  by code_simp

lemma first_candidates_outside: "first_candidates ''@28.6139,77.2090'' = [[''28.6139'', ''77.2090'']]"
  by code_simp

lemma candidates_malformed:
  "candidates ''@1.2.3,4 @22.5726,88.3639'' = [[''1.2.3'', ''4''], [''22.5726'', ''88.3639'']]"
  by code_simp

lemma first_candidates_second_match:
  "first_candidates ''@22.9,90.1 @22.5726,88.3639'' = [[''22.9'', ''90.1'']]"
  by code_simp

lemma candidates_second_match:
  "candidates ''@22.9,90.1 @22.5726,88.3639'' = [[''22.9'', ''90.1''], [''22.5726'', ''88.3639'']]"
  by code_simp

lemmas py_float_eval = py_float_def digit_chars_def digits_value_def digit_value_def all_digits_def

lemma value_inside: "candidate_value [''22.5726'', ''88.3639''] = Some (22.5726, 88.3639)"
  by (simp add: candidate_value_def py_float_eval)

lemma value_outside: "candidate_value [''28.6139'', ''77.2090''] = Some (28.6139, 77.209)"
  by (simp add: candidate_value_def py_float_eval)

lemma value_malformed: "candidate_value [''1.2.3'', ''4''] = None"
  by (simp add: candidate_value_def py_float_eval)

lemma value_east: "candidate_value [''22.9'', ''90.1''] = Some (22.9, 90.1)"
  by (simp add: candidate_value_def py_float_eval)

lemma value_refused: "candidate_value [''22.5'', ''1.2.3''] = None"
  by (simp add: candidate_value_def py_float_eval)

lemma candidates_refused:
  "candidates ''@22.5,1.2.3 !3d22.5726!4d88.3639'' =
     [[''22.5'', ''1.2.3''], [''22.5726'', ''88.3639'']]"
  by code_simp

lemma first_candidates_refused:
  "first_candidates ''@22.5,1.2.3 !3d22.5726!4d88.3639'' =
     [[''22.5'', ''1.2.3''], [''22.5726'', ''88.3639'']]"
  by code_simp

text \<open>
  A response \<^verbatim>\<open>"lat":\<close> U+00A0 \<^verbatim>\<open>22.5726,"lng":88.3639\<close>: the no-break space is matched
  by \<^verbatim>\<open>\s*\<close>.
\<close>

lemma candidates_no_break_space:
  "candidates ([CHR 0x22] @ ''lat'' @ [CHR 0x22] @ '':'' @ [CHR 0xA0] @ ''22.5726,'' @
     [CHR 0x22] @ ''lng'' @ [CHR 0x22] @ '':88.3639'') = [[''22.5726'', ''88.3639'']]"
  by code_simp

lemma passed_over_east: "passed_over [''22.9'', ''90.1'']"
  by (simp add: passed_over_def py_float_eval)

lemma passed_over_outside: "passed_over [''28.6139'', ''77.2090'']"
  by (simp add: passed_over_def py_float_eval)

lemma not_passed_over_refused: "\<not> passed_over [''22.5'', ''1.2.3'']"
  by (simp add: passed_over_def py_float_eval)

lemma answering_primary:
  "answering body (Get ''https://www.google.com/maps/search/''
     ''{station_name} metro station {location}'' station_name location) = Response 200 body"
  by (simp add: answering_def)

lemma primary_answering:
  "get_google_maps_coordinates (answering body) station_name location =
     (case try_matches (candidates body) of
        Inl e \<Rightarrow> (None, None)
      | Inr (Some (lat, lng)) \<Rightarrow> (Some lat, Some lng)
      | Inr None \<Rightarrow> (None, None))"
  by (rule primary_on_response [of "answering body" station_name location body,
        OF answering_primary])

lemma alternative_requests_first:
  "alternative_requests station_name location =
     [] @ Get ''https://maps.google.com/maps?q='' ''{station_name} metro station {location}''
            station_name location #
     tl (alternative_requests station_name location)"
  by (simp add: alternative_requests_def search_queries_def urls_def)

text \<open>
  Claim C4, as stated: the resolver accepts the first extracted pair that passes the
  bounding-box validation. Two responses show otherwise. In the first, the first match
  of the first pattern is \<^verbatim>\<open>1.2.3\<close>, which \<^verbatim>\<open>float\<close> refuses: the primary resolver ends
  with the pair of Nones although the next match is a pair in the box. In the second,
  the first match of the first pattern is outside the box and the second one inside:
  the primary resolver returns the second, the alternative resolver, which looks at
  first matches only, returns the pair of Nones.
\<close>

theorem first_valid_pair_counterexample:
  "candidates ''@1.2.3,4 @22.5726,88.3639'' = [[''1.2.3'', ''4''], [''22.5726'', ''88.3639'']] \<and>
   accepted [''22.5726'', ''88.3639''] \<and>
   get_google_maps_coordinates (answering ''@1.2.3,4 @22.5726,88.3639'')
     (JStr ''Kavi Subhash'') ''Kolkata'' = (None, None) \<and>
   candidates ''@22.9,90.1 @22.5726,88.3639'' = [[''22.9'', ''90.1''], [''22.5726'', ''88.3639'']] \<and>
   get_google_maps_coordinates (answering ''@22.9,90.1 @22.5726,88.3639'')
     (JStr ''Kavi Subhash'') ''Kolkata'' = (Some 22.5726, Some 88.3639) \<and>
   get_coordinates_alternative (answering ''@22.9,90.1 @22.5726,88.3639'')
     (JStr ''Kavi Subhash'') ''Kolkata'' = (None, None)"
proof (intro conjI)
  show "candidates ''@1.2.3,4 @22.5726,88.3639'' = [[''1.2.3'', ''4''], [''22.5726'', ''88.3639'']]"
    by (rule candidates_malformed)
  show "accepted [''22.5726'', ''88.3639'']"
    by (simp add: accepted_def value_inside in_kolkata_box_def)
  show "get_google_maps_coordinates (answering ''@1.2.3,4 @22.5726,88.3639'')
     (JStr ''Kavi Subhash'') ''Kolkata'' = (None, None)"
    by (simp del: try_matches.simps(2)
        add: primary_answering candidates_malformed try_matches_step value_malformed)
  show "candidates ''@22.9,90.1 @22.5726,88.3639'' = [[''22.9'', ''90.1''], [''22.5726'', ''88.3639'']]"
    by (rule candidates_second_match)
  show "get_google_maps_coordinates (answering ''@22.9,90.1 @22.5726,88.3639'')
     (JStr ''Kavi Subhash'') ''Kolkata'' = (Some 22.5726, Some 88.3639)"
    by (simp del: try_matches.simps(2)
        add: primary_answering candidates_second_match try_matches_step value_east
          value_inside in_kolkata_box_def py_round_def)
  have "yields_nothing (answering ''@22.9,90.1 @22.5726,88.3639'') q" for q
    by (simp add: yields_nothing_def answering_def first_candidates_second_match accepted_def
        value_east in_kolkata_box_def passed_over_east)
  then show "get_coordinates_alternative (answering ''@22.9,90.1 @22.5726,88.3639'')
     (JStr ''Kavi Subhash'') ''Kolkata'' = (None, None)"
    by (intro alternative_miss) simp
qed

text \<open>
  Claim C4, amended. On a response with status 200 the primary resolver goes through the
  matches of its five patterns, pattern by pattern in their fixed order and every match
  of a pattern in text order. It returns the first match that is a pair of numbers inside
  the bounding box, rounded to 7 places, provided every match before it converts to two
  numbers (outside the box). A match that \<^verbatim>\<open>float\<close> refuses, coming after such matches
  only, ends the resolution with the pair of Nones, and so does a response with no match
  inside the box.

  The alternative resolver sends its nine requests in order and looks, in each response
  with status 200, at the first match of each pattern only, in pattern order. It passes a
  first match over when its latitude converts and is out of range, or is in range and its
  longitude converts and is out of range; a first match that is neither in the box nor
  passed over is one that \<^verbatim>\<open>float\<close> refuses, and makes the resolver give up that response
  and go on to the next request. It returns, unrounded, a first match inside the box when
  the first matches before it in that response are all passed over and every earlier
  request yields nothing: it raised, its status is not 200, or its first matches are all
  passed over or hold a refused one before any inside the box. If every request yields
  nothing it returns the pair of Nones.
\<close>

theorem first_valid_candidate_wins:
  "(\<forall>body. http (Get ''https://www.google.com/maps/search/''
              ''{station_name} metro station {location}'' station_name location) =
            Response 200 body \<longrightarrow>
      (\<forall>pre m post lat_f lng_f.
         candidates body = pre @ m # post \<and> (\<forall>c\<in>set pre. rejected c) \<and>
         candidate_value m = Some (lat_f, lng_f) \<and> in_kolkata_box lat_f lng_f \<longrightarrow>
         get_google_maps_coordinates http station_name location =
           (Some (py_round lat_f 7), Some (py_round lng_f 7))) \<and>
      (\<forall>pre m post.
         candidates body = pre @ m # post \<and> (\<forall>c\<in>set pre. rejected c) \<and>
         candidate_value m = None \<longrightarrow>
         get_google_maps_coordinates http station_name location = (None, None)) \<and>
      ((\<forall>c\<in>set (candidates body). \<not> accepted c) \<longrightarrow>
         get_google_maps_coordinates http station_name location = (None, None))) \<and>
   (\<forall>before req after body pre m post lat_f lng_f.
      alternative_requests station_name location = before @ req # after \<and>
      (\<forall>q\<in>set before. yields_nothing http q) \<and> http req = Response 200 body \<and>
      first_candidates body = pre @ m # post \<and> (\<forall>c\<in>set pre. passed_over c) \<and>
      candidate_value m = Some (lat_f, lng_f) \<and> in_kolkata_box lat_f lng_f \<longrightarrow>
      get_coordinates_alternative http station_name location = (Some lat_f, Some lng_f)) \<and>
   ((\<forall>q\<in>set (alternative_requests station_name location). yields_nothing http q) \<longrightarrow>
      get_coordinates_alternative http station_name location = (None, None))"
proof (intro conjI allI impI)
  fix body pre m post lat_f lng_f
  assume r: "http (Get ''https://www.google.com/maps/search/''
      ''{station_name} metro station {location}'' station_name location) = Response 200 body"
    and h: "candidates body = pre @ m # post \<and> (\<forall>c\<in>set pre. rejected c) \<and>
      candidate_value m = Some (lat_f, lng_f) \<and> in_kolkata_box lat_f lng_f"
  from h have h': "candidates body = pre @ m # post" "\<forall>c\<in>set pre. rejected c"
    "candidate_value m = Some (lat_f, lng_f)" "in_kolkata_box lat_f lng_f" by simp_all
  show "get_google_maps_coordinates http station_name location =
      (Some (py_round lat_f 7), Some (py_round lng_f 7))"
    by (rule primary_hit [of http station_name location body, OF r h'])
next
  fix body pre m post
  assume r: "http (Get ''https://www.google.com/maps/search/''
      ''{station_name} metro station {location}'' station_name location) = Response 200 body"
    and h: "candidates body = pre @ m # post \<and> (\<forall>c\<in>set pre. rejected c) \<and>
      candidate_value m = None"
  from h have h': "candidates body = pre @ m # post" "\<forall>c\<in>set pre. rejected c"
    "candidate_value m = None" by simp_all
  show "get_google_maps_coordinates http station_name location = (None, None)"
    by (rule primary_refused [of http station_name location body, OF r h'])
next
  fix body
  assume r: "http (Get ''https://www.google.com/maps/search/''
      ''{station_name} metro station {location}'' station_name location) = Response 200 body"
    and h: "\<forall>c\<in>set (candidates body). \<not> accepted c"
  show "get_google_maps_coordinates http station_name location = (None, None)"
    by (rule primary_miss [of http station_name location body, OF r h])
next
  fix before req after body pre m post lat_f lng_f
  assume h: "alternative_requests station_name location = before @ req # after \<and>
      (\<forall>q\<in>set before. yields_nothing http q) \<and> http req = Response 200 body \<and>
      first_candidates body = pre @ m # post \<and> (\<forall>c\<in>set pre. passed_over c) \<and>
      candidate_value m = Some (lat_f, lng_f) \<and> in_kolkata_box lat_f lng_f"
  then have h': "alternative_requests station_name location = before @ req # after"
    "\<forall>q\<in>set before. yields_nothing http q" "http req = Response 200 body"
    "first_candidates body = pre @ m # post" "\<forall>c\<in>set pre. passed_over c"
    "candidate_value m = Some (lat_f, lng_f)" "in_kolkata_box lat_f lng_f" by simp_all
  show "get_coordinates_alternative http station_name location = (Some lat_f, Some lng_f)"
    by (rule alternative_hit [OF h'])
next
  assume "\<forall>q\<in>set (alternative_requests station_name location). yields_nothing http q"
  then show "get_coordinates_alternative http station_name location = (None, None)"
    by (rule alternative_miss)
qed

text \<open>
  Three examples, for both resolvers. The response \<^verbatim>\<open>@22.5726,88.3639\<close> resolves to that
  pair. A response whose only coordinates are outside the box (here New Delhi) resolves
  to the pair of Nones. On \<^verbatim>\<open>@22.5,1.2.3 !3d22.5726!4d88.3639\<close> the first match of the first
  pattern has a longitude that \<^verbatim>\<open>float\<close> refuses: both resolvers return the pair of Nones,
  although the first match of the second pattern is inside the box.
\<close>

theorem first_valid_candidate_wins_witness:
  "get_google_maps_coordinates (answering ''@22.5726,88.3639'') (JStr ''Kavi Subhash'')
     ''Kolkata'' = (Some 22.5726, Some 88.3639) \<and>
   get_google_maps_coordinates (answering ''@28.6139,77.2090'') (JStr ''Kavi Subhash'')
     ''Kolkata'' = (None, None) \<and>
   get_coordinates_alternative (answering ''@22.5726,88.3639'') (JStr ''Kavi Subhash'')
     ''Kolkata'' = (Some 22.5726, Some 88.3639) \<and>
   get_coordinates_alternative (answering ''@28.6139,77.2090'') (JStr ''Kavi Subhash'')
     ''Kolkata'' = (None, None) \<and>
   first_candidates ''@22.5,1.2.3 !3d22.5726!4d88.3639'' =
     [[''22.5'', ''1.2.3''], [''22.5726'', ''88.3639'']] \<and>
   get_google_maps_coordinates (answering ''@22.5,1.2.3 !3d22.5726!4d88.3639'')
     (JStr ''Kavi Subhash'') ''Kolkata'' = (None, None) \<and>
   get_coordinates_alternative (answering ''@22.5,1.2.3 !3d22.5726!4d88.3639'')
     (JStr ''Kavi Subhash'') ''Kolkata'' = (None, None)"
proof (intro conjI)
  note inside = first_valid_candidate_wins
    [of "answering ''@22.5726,88.3639''" "JStr ''Kavi Subhash''" "''Kolkata''"]
  note outside = first_valid_candidate_wins
    [of "answering ''@28.6139,77.2090''" "JStr ''Kavi Subhash''" "''Kolkata''"]
  note refused = first_valid_candidate_wins
    [of "answering ''@22.5,1.2.3 !3d22.5726!4d88.3639''" "JStr ''Kavi Subhash''" "''Kolkata''"]
  note primary_in = inside [THEN conjunct1, rule_format, OF answering_primary,
      THEN conjunct1, rule_format,
      of "[]" "[''22.5726'', ''88.3639'']" "[]" "22.5726" "88.3639"]
  note primary_out = outside [THEN conjunct1, rule_format, OF answering_primary,
      THEN conjunct2, THEN conjunct2, rule_format]
  note primary_no = refused [THEN conjunct1, rule_format, OF answering_primary,
      THEN conjunct2, THEN conjunct1, rule_format,
      of "[]" "[''22.5'', ''1.2.3'']" "[[''22.5726'', ''88.3639'']]"]
  note alternative_in = inside [THEN conjunct2, THEN conjunct1, rule_format,
      of "[]" _ _ "''@22.5726,88.3639''" "[]" "[''22.5726'', ''88.3639'']" "[]"
        "22.5726" "88.3639"]
  note alternative_out = outside [THEN conjunct2, THEN conjunct2, rule_format]
  note alternative_no = refused [THEN conjunct2, THEN conjunct2, rule_format]
  have box: "in_kolkata_box 22.5726 88.3639" by (simp add: in_kolkata_box_def)
  have away: "\<not> accepted [''28.6139'', ''77.2090'']"
    by (simp add: accepted_def value_outside in_kolkata_box_def)
  show "get_google_maps_coordinates (answering ''@22.5726,88.3639'') (JStr ''Kavi Subhash'')
     ''Kolkata'' = (Some 22.5726, Some 88.3639)"
    using primary_in box by (simp add: candidates_inside value_inside py_round_def)
  show "get_google_maps_coordinates (answering ''@28.6139,77.2090'') (JStr ''Kavi Subhash'')
     ''Kolkata'' = (None, None)"
    using primary_out away by (simp add: candidates_outside)
  show "get_coordinates_alternative (answering ''@22.5726,88.3639'') (JStr ''Kavi Subhash'')
     ''Kolkata'' = (Some 22.5726, Some 88.3639)"
    using alternative_in [OF conjI [OF alternative_requests_first]] box
    by (simp add: answering_def first_candidates_inside value_inside)
  have "yields_nothing (answering ''@28.6139,77.2090'') q" for q
    using away
    by (simp add: yields_nothing_def answering_def first_candidates_outside passed_over_outside)
  then show "get_coordinates_alternative (answering ''@28.6139,77.2090'') (JStr ''Kavi Subhash'')
     ''Kolkata'' = (None, None)"
    using alternative_out by simp
  show "first_candidates ''@22.5,1.2.3 !3d22.5726!4d88.3639'' =
     [[''22.5'', ''1.2.3''], [''22.5726'', ''88.3639'']]"
    by (rule first_candidates_refused)
  show "get_google_maps_coordinates (answering ''@22.5,1.2.3 !3d22.5726!4d88.3639'')
     (JStr ''Kavi Subhash'') ''Kolkata'' = (None, None)"
    using primary_no by (simp add: candidates_refused value_refused)
  have "yields_nothing (answering ''@22.5,1.2.3 !3d22.5726!4d88.3639'') q" for q
    by (simp add: yields_nothing_def answering_def first_candidates_refused accepted_def
        value_refused not_passed_over_refused)
  then show "get_coordinates_alternative (answering ''@22.5,1.2.3 !3d22.5726!4d88.3639'')
     (JStr ''Kavi Subhash'') ''Kolkata'' = (None, None)"
    using alternative_no by simp
qed

subsection \<open>Rendering with 7 fractional digits\<close>

lemma digit_char_digit: "digit_char n \<in> set digit_chars"
proof -
  have "n mod 10 < length digit_chars" by (simp add: digit_chars_def)
  then show ?thesis by (simp only: digit_char.simps nth_mem)
qed

lemma digits_of_digits: "set (digits_of n) \<subseteq> set digit_chars"
proof (induction n rule: digits_of.induct)
  case (1 n)
  show ?case
  proof (cases "n < 10")
    case True
    then show ?thesis using digit_char_digit [of n] by (subst digits_of.simps) simp
  next
    case False
    with 1 have "set (digits_of (n div 10)) \<subseteq> set digit_chars" by simp
    with False show ?thesis using digit_char_digit [of n] by (subst digits_of.simps) simp
  qed
qed

lemma digits_of_numeral:
  "digits_of (numeral k) =
     (if (numeral k :: nat) < 10 then [digit_char (numeral k)]
      else digits_of (numeral k div 10) @ [digit_char (numeral k)])"
  by (rule digits_of.simps)

lemma dot_not_digit: "CHR ''.'' \<notin> set digit_chars"
  by (simp add: digit_chars_def)

lemma length_digits_of: "n < 10 ^ k \<Longrightarrow> 0 < k \<Longrightarrow> length (digits_of n) \<le> k"
proof (induction n arbitrary: k rule: digits_of.induct)
  case (1 n)
  show ?case
  proof (cases "n < 10")
    case True
    then show ?thesis using 1(3) by (subst digits_of.simps) simp
  next
    case False
    with 1(2) have k: "1 < k" by (cases "k = 1") (use 1(3) in auto)
    then obtain j where j: "k = Suc j" "0 < j" by (cases k) auto
    from 1(2) j have "n div 10 < 10 ^ j" by (simp add: less_mult_imp_div_less mult.commute)
    from 1(1) [OF False this j(2)] False j show ?thesis by (subst digits_of.simps) simp
  qed
qed

lemma after_last_dot_append:
  assumes "CHR ''.'' \<notin> set t"
  shows "after_last_dot (s @ CHR ''.'' # t) = t"
proof -
  have "takeWhile (\<lambda>c. c \<noteq> CHR ''.'') (rev t @ CHR ''.'' # rev s) =
      rev t @ takeWhile (\<lambda>c. c \<noteq> CHR ''.'') (CHR ''.'' # rev s)"
    by (rule takeWhile_append2) (use assms in auto)
  then show ?thesis by (simp add: after_last_dot_def)
qed

lemma format_fixed_decimals: "0 < prec \<Longrightarrow> length (after_last_dot (format_fixed x prec)) = prec"
proof -
  assume p: "0 < prec"
  define n where "n = nat (round_half_even (\<bar>x\<bar> * 10 ^ prec))"
  define fs where "fs = digits_of (n mod 10 ^ prec)"
  define t where "t = replicate (prec - length fs) (CHR ''0'') @ fs"
  have l: "length fs \<le> prec" unfolding fs_def by (rule length_digits_of) (use p in simp_all)
  have "set fs \<subseteq> set digit_chars" unfolding fs_def by (rule digits_of_digits)
  then have "CHR ''.'' \<notin> set fs" using dot_not_digit by blast
  then have nd: "CHR ''.'' \<notin> set t" by (auto simp: t_def)
  define pfx where "pfx = (if x < 0 then ''-'' else []) @ digits_of (n div 10 ^ prec)"
  have "format_fixed x prec = pfx @ CHR ''.'' # t"
    by (simp add: format_fixed_def Let_def n_def fs_def t_def pfx_def)
  then have "after_last_dot (format_fixed x prec) = t"
    by (simp only: after_last_dot_append [OF nd])
  then show ?thesis using l by (simp add: t_def)
qed

lemma format_7f_decimals: "format_7f v = Inr s \<Longrightarrow> length (after_last_dot s) = 7"
  by (auto simp: format_7f_def format_fixed_decimals split: option.splits json.splits)

lemma verify_stations_never_false: "verify_stations stations True \<noteq> Inr False"
proof (induction stations)
  case Nil
  show ?case by simp
next
  case (Cons station rest)
  show ?case
    using Cons.IH
    by (auto simp: Let_def ebind_def format_7f_decimals split: sum.splits)
qed

lemma already_precise_iff: "already_precise station = has_coordinates station"
  by (simp add: already_precise_def has_coordinates_def is_number_def format_fixed_decimals
      split: option.splits)

lemma scrape_stations_skip:
  "has_coordinates station \<Longrightarrow> map_of station ''name'' = Some name \<Longrightarrow>
   scrape_stations http (station # rest) seen n failed_stations =
     scrape_stations http rest (seen @ [station]) n failed_stations"
  by (simp add: getitem_def already_precise_iff)

lemma scrape_stations_resolved:
  assumes "\<not> has_coordinates station" "map_of station ''name'' = Some name"
    and "get_google_maps_coordinates http name ''Kolkata'' = (Some lat, Some lng)"
  shows "scrape_stations http (station # rest) seen n failed_stations =
           scrape_stations http rest
             (seen @ [setitem (setitem station ''latitude'' (JNum (py_round lat 7)))
                        ''longitude'' (JNum (py_round lng 7))])
             (n + 1) failed_stations"
  using assms by (simp add: getitem_def already_precise_iff)

text \<open>
  Claim C5 says that the precision check returns false on a value stored with fewer than
  7 fractional digits, such as 22.48. The check renders the value with \<^verbatim>\<open>.7f\<close> first and
  counts the digits of the rendering, which are always 7: it cannot return false. On the
  station Shahid Khudiram, stored as 22.48 and 88.381, it returns true.
\<close>

theorem verify_accepts_short_coordinates:
  "format_fixed 22.48 7 = ''22.4800000'' \<and>
   verify_coordinate_precision [shahid_khudiram] = Inr True \<and>
   verify_coordinate_precision stations \<noteq> Inr False"
proof (intro conjI)
  show "format_fixed 22.48 7 = ''22.4800000''"
    by (simp add: format_fixed_def digits_of_numeral digit_chars_def)
  show "verify_coordinate_precision [shahid_khudiram] = Inr True"
    by (simp add: verify_coordinate_precision_def shahid_khudiram_def dict_get_def
        format_7f_def getitem_def format_fixed_decimals)
  show "verify_coordinate_precision stations \<noteq> Inr False"
    unfolding verify_coordinate_precision_def by (rule verify_stations_never_false)
qed

text \<open>
  Claim C6 says that a resolve-all pass resolves again a station whose coordinates are
  present but have fewer than 7 fractional digits. The test of \<^verbatim>\<open>scrape_all_coordinates\<close>
  is the same rendering with \<^verbatim>\<open>.7f\<close>: it holds for every station whose two coordinates
  are numbers. Whatever the network would answer, the station Shahid Khudiram (22.48,
  88.381) is passed over and saved unchanged, with no station counted as updated or failed.
\<close>

theorem scrape_skips_short_coordinates:
  "already_precise shahid_khudiram \<and>
   scrape_all_coordinates http [shahid_khudiram] =
     \<lparr>stations_saved = Some [shahid_khudiram], updated = 0, failed = [], scrape_raised = None\<rparr>"
proof
  have c: "has_coordinates shahid_khudiram"
    by (simp add: has_coordinates_def shahid_khudiram_def is_number_def)
  then show "already_precise shahid_khudiram" by (simp add: already_precise_iff)
  have n: "map_of shahid_khudiram ''name'' = Some (JStr ''Shahid Khudiram'')"
    by (simp add: shahid_khudiram_def)
  have "scrape_stations http [shahid_khudiram] [] 0 [] = Inr ([shahid_khudiram], 0, [])"
    by (simp only: scrape_stations_skip [OF c n]) simp
  moreover have "[shahid_khudiram] \<noteq> []" by simp
  ultimately show "scrape_all_coordinates http [shahid_khudiram] =
     \<lparr>stations_saved = Some [shahid_khudiram], updated = 0, failed = [], scrape_raised = None\<rparr>"
    by (simp add: scrape_all_coordinates_def)
qed

subsection \<open>Rounding is symmetric, and the rendering reads back\<close>

lemma round_half_even_minus: "round_half_even (- x) = - round_half_even x"
proof (cases "x = of_int \<lfloor>x\<rfloor>")
  case True
  then obtain k where k: "x = of_int k" ..
  then have "- x = of_int (- k)" by simp
  then show ?thesis using k by (simp only: round_half_even_of_int)
next
  case False
  define f where "f = \<lfloor>x\<rfloor>"
  define d where "d = x - of_int f"
  have "\<lceil>x\<rceil> = f + 1" using False by (simp add: ceiling_altdef f_def)
  then have fl: "\<lfloor>- x\<rfloor> = - f - 1" by (simp add: floor_minus)
  have d': "- x - of_int (- f - 1) = 1 - d" by (simp add: d_def)
  have a: "round_half_even x =
      (if d < 1 / 2 then f else if 1 / 2 < d then f + 1 else if even f then f else f + 1)"
    by (simp add: round_half_even_def Let_def f_def d_def)
  have b: "round_half_even (- x) =
      (if 1 - d < 1 / 2 then - f - 1 else if 1 / 2 < 1 - d then - f - 1 + 1
       else if even (- f - 1) then - f - 1 else - f - 1 + 1)"
    by (simp only: round_half_even_def Let_def fl d')
  consider "d < 1 / 2" | "d = 1 / 2" | "1 / 2 < d" by linarith
  then show ?thesis
  proof cases
    case 1
    then have "\<not> 1 - d < 1 / 2" "1 / 2 < 1 - d" by linarith+
    with 1 show ?thesis by (simp add: a b)
  next
    case 2
    then have "\<not> 1 - d < 1 / 2" "\<not> 1 / 2 < 1 - d" "\<not> d < 1 / 2" "\<not> 1 / 2 < d" by linarith+
    then show ?thesis by (simp add: a b)
  next
    case 3
    then have "1 - d < 1 / 2" "\<not> d < 1 / 2" by linarith+
    with 3 show ?thesis by (simp add: a b)
  qed
qed

lemma round_half_even_nonneg: "0 \<le> x \<Longrightarrow> 0 \<le> round_half_even x"
  using round_half_even_ge [of 0 x] by simp

lemma digit_value_nth: "\<forall>k\<in>set [0, 1, 2, 3, 4, 5, 6, 7, 8, 9]. digit_value (digit_chars ! k) = k"
  by (simp add: digit_chars_def digit_value_def)

lemma digit_value_nth_less: "k < 10 \<Longrightarrow> digit_value (digit_chars ! k) = k"
proof -
  assume "k < 10"
  then have "k \<in> set [0, 1, 2, 3, 4, 5, 6, 7, 8, 9]"
    by (simp only: set_simps insert_iff empty_iff) presburger
  with digit_value_nth show ?thesis by blast
qed

lemma digit_value_digit_char: "digit_value (digit_char n) = n mod 10"
  by (simp add: digit_value_nth_less)

lemma digits_value_snoc: "digits_value (s @ [c]) = 10 * digits_value s + digit_value c"
  by (simp add: digits_value_def)

lemma digits_value_digits_of: "digits_value (digits_of n) = n"
proof (induction n rule: digits_of.induct)
  case (1 n)
  show ?case
  proof (cases "n < 10")
    case True
    then show ?thesis
      by (subst digits_of.simps) (simp add: digits_value_def digit_value_nth_less)
  next
    case False
    with 1 have "digits_value (digits_of (n div 10)) = n div 10" by simp
    with False show ?thesis
      by (subst digits_of.simps) (simp add: digits_value_snoc digit_value_nth_less)
  qed
qed

lemma digits_value_zeros: "digits_value (replicate k (CHR ''0'') @ s) = digits_value s"
proof -
  have "foldl (\<lambda>a c. 10 * a + digit_value c) 0 (replicate k (CHR ''0'')) = 0"
    by (induction k) (simp_all add: digit_value_def digit_chars_def)
  then show ?thesis by (simp add: digits_value_def)
qed

lemma digits_of_nonempty: "digits_of n \<noteq> []"
  by (subst digits_of.simps) simp

lemma zero_digit: "CHR ''0'' \<in> set digit_chars"
  by (simp add: digit_chars_def)

lemma minus_not_digit: "CHR ''-'' \<notin> set digit_chars"
  by (simp add: digit_chars_def)

text \<open>Reading back the digits before and after the dot.\<close>

lemma py_float_digits:
  assumes "set ip \<subseteq> set digit_chars" "ip \<noteq> []" "set fp \<subseteq> set digit_chars"
  shows "py_float (ip @ CHR ''.'' # fp) =
           Inr (real (digits_value ip) + real (digits_value fp) / 10 ^ length fp)"
    and "py_float (CHR ''-'' # ip @ CHR ''.'' # fp) =
           Inr (- (real (digits_value ip) + real (digits_value fp) / 10 ^ length fp))"
proof -
  have tw: "takeWhile (\<lambda>c. c \<in> set digit_chars) (ip @ CHR ''.'' # fp) = ip"
    using assms(1) dot_not_digit by (simp add: takeWhile_tail subset_iff)
  have dw: "dropWhile (\<lambda>c. c \<in> set digit_chars) (ip @ CHR ''.'' # fp) = CHR ''.'' # fp"
    using assms(1) dot_not_digit by (simp add: dropWhile_append3 subset_iff)
  have ad: "all_digits fp" using assms(3) by (auto simp: all_digits_def list_all_iff)
  have h: "hd (ip @ CHR ''.'' # fp) \<noteq> CHR ''-''"
    using assms(1,2) minus_not_digit by (cases ip) auto
  have n: "ip @ CHR ''.'' # fp \<noteq> []" by simp
  show "py_float (ip @ CHR ''.'' # fp) =
           Inr (real (digits_value ip) + real (digits_value fp) / 10 ^ length fp)"
    unfolding py_float_def Let_def
    by (simp only: n h tw dw ad assms(2) simp_thms if_True if_False list.sel list.simps)
  have m: "CHR ''-'' # ip @ CHR ''.'' # fp \<noteq> []" "hd (CHR ''-'' # ip @ CHR ''.'' # fp) = CHR ''-''"
    "tl (CHR ''-'' # ip @ CHR ''.'' # fp) = ip @ CHR ''.'' # fp" by simp_all
  show "py_float (CHR ''-'' # ip @ CHR ''.'' # fp) =
           Inr (- (real (digits_value ip) + real (digits_value fp) / 10 ^ length fp))"
    unfolding py_float_def Let_def
    by (simp only: m tw dw ad assms(2) simp_thms if_True if_False list.sel list.simps)
qed

lemma py_float_format_fixed:
  assumes "0 < prec"
  shows "py_float (format_fixed x prec) = Inr (py_round x prec)"
proof -
  define n where "n = nat (round_half_even (\<bar>x\<bar> * 10 ^ prec))"
  define fs where "fs = digits_of (n mod 10 ^ prec)"
  define t where "t = replicate (prec - length fs) (CHR ''0'') @ fs"
  define ip where "ip = digits_of (n div 10 ^ prec)"
  have l: "length fs \<le> prec" unfolding fs_def by (rule length_digits_of) (use assms in simp_all)
  then have lt: "length t = prec" by (simp add: t_def)
  have fsd: "set fs \<subseteq> set digit_chars" unfolding fs_def by (rule digits_of_digits)
  have td: "set t \<subseteq> set digit_chars" using fsd zero_digit by (auto simp: t_def)
  have ipd: "set ip \<subseteq> set digit_chars" "ip \<noteq> []"
    unfolding ip_def by (rule digits_of_digits, rule digits_of_nonempty)
  have vt: "digits_value t = n mod 10 ^ prec"
    by (simp add: t_def digits_value_zeros fs_def digits_value_digits_of)
  have vi: "digits_value ip = n div 10 ^ prec" by (simp add: ip_def digits_value_digits_of)
  have "real (n div 10 ^ prec) * 10 ^ prec + real (n mod 10 ^ prec) = real n"
  proof -
    have "n div 10 ^ prec * 10 ^ prec + n mod 10 ^ prec = n" by (rule div_mult_mod_eq)
    then have "real (n div 10 ^ prec * 10 ^ prec + n mod 10 ^ prec) = real n" by (simp only:)
    then show ?thesis by (simp only: of_nat_add of_nat_mult of_nat_power of_nat_numeral)
  qed
  then have v: "real (digits_value ip) + real (digits_value t) / 10 ^ length t = real n / 10 ^ prec"
    by (simp add: vt vi lt field_simps)
  have f: "format_fixed x prec = (if x < 0 then ''-'' else []) @ ip @ CHR ''.'' # t"
    by (simp add: format_fixed_def Let_def n_def fs_def t_def ip_def)
  show ?thesis
  proof (cases "x < 0")
    case True
    have "0 \<le> (- x) * 10 ^ prec" by (rule mult_nonneg_nonneg) (use True in simp_all)
    then have "0 \<le> round_half_even (- x * 10 ^ prec)" by (rule round_half_even_nonneg)
    moreover have "round_half_even (- x * 10 ^ prec) = - round_half_even (x * 10 ^ prec)"
      using round_half_even_minus [of "x * 10 ^ prec"] by simp
    ultimately have "real n = - of_int (round_half_even (x * 10 ^ prec))"
      using True by (simp add: n_def abs_if)
    then have "- (real n / 10 ^ prec) = py_round x prec" by (simp add: py_round_def)
    have "py_float (CHR ''-'' # ip @ CHR ''.'' # t) = Inr (- (real n / 10 ^ prec))"
      by (simp only: py_float_digits(2) [OF ipd td] v)
    moreover have "format_fixed x prec = CHR ''-'' # ip @ CHR ''.'' # t"
      using True by (simp only: f if_True append_Cons append_Nil)
    ultimately show ?thesis using \<open>- (real n / 10 ^ prec) = py_round x prec\<close> by (simp only:)
  next
    case False
    have "0 \<le> x * 10 ^ prec" by (rule mult_nonneg_nonneg) (use False in simp_all)
    then have "0 \<le> round_half_even (x * 10 ^ prec)" by (rule round_half_even_nonneg)
    then have "real n = of_int (round_half_even (x * 10 ^ prec))"
      using False by (simp add: n_def abs_if)
    then have "real n / 10 ^ prec = py_round x prec" by (simp add: py_round_def)
    have "py_float (ip @ CHR ''.'' # t) = Inr (real n / 10 ^ prec)"
      by (simp only: py_float_digits(1) [OF ipd td] v)
    moreover have "format_fixed x prec = ip @ CHR ''.'' # t"
      using False by (simp only: f if_False append_Nil)
    ultimately show ?thesis using \<open>real n / 10 ^ prec = py_round x prec\<close> by (simp only:)
  qed
qed

text \<open>
  Claim C9. Normalisation is rounding to 7 places (\<^verbatim>\<open>round(x, 7)\<close>). It is idempotent,
  and a normalised value rendered with \<^verbatim>\<open>.7f\<close> has exactly 7 digits after the dot, which
  denote the value exactly: converting the rendering back gives the normalised value.
\<close>

theorem normalize_idempotent_seven_digits:
  "py_round (py_round x 7) 7 = py_round x 7 \<and>
   length (after_last_dot (format_fixed (py_round x 7) 7)) = 7 \<and>
   py_float (format_fixed (py_round x 7) 7) = Inr (py_round x 7)"
proof (intro conjI)
  show "py_round (py_round x 7) 7 = py_round x 7" by (rule py_round_idem)
  show "length (after_last_dot (format_fixed (py_round x 7) 7)) = 7"
    by (rule format_fixed_decimals) simp
  have "py_float (format_fixed (py_round x 7) 7) = Inr (py_round (py_round x 7) 7)"
    by (rule py_float_format_fixed) simp
  then show "py_float (format_fixed (py_round x 7) 7) = Inr (py_round x 7)"
    by (simp only: py_round_idem)
qed

text \<open>
  At 22.48123456789 normalisation gives 22.4812346, rendered as \<^verbatim>\<open>22.4812346\<close>; the short
  value 22.48 is its own normal form and renders as \<^verbatim>\<open>22.4800000\<close>.
\<close>

theorem normalize_idempotent_seven_digits_witness:
  "py_round (py_round 22.48123456789 7) 7 = py_round 22.48123456789 7 \<and>
   length (after_last_dot (format_fixed (py_round 22.48123456789 7) 7)) = 7 \<and>
   py_float (format_fixed (py_round 22.48123456789 7) 7) = Inr (py_round 22.48123456789 7) \<and>
   py_round 22.48123456789 7 = 22.4812346 \<and>
   format_fixed 22.4812346 7 = ''22.4812346'' \<and>
   py_round 22.48 7 = 22.48 \<and>
   format_fixed 22.48 7 = ''22.4800000''"
proof -
  have "py_round 22.48123456789 7 = 22.4812346"
    by (simp add: py_round_def round_half_even_def)
  moreover have "format_fixed 22.4812346 7 = ''22.4812346''"
    by (simp add: format_fixed_def digits_of_numeral digit_chars_def)
  moreover have "py_round 22.48 7 = 22.48"
    by (simp add: py_round_def)
  moreover have "format_fixed 22.48 7 = ''22.4800000''"
    by (simp add: format_fixed_def digits_of_numeral digit_chars_def)
  ultimately show ?thesis
    using normalize_idempotent_seven_digits [of "22.48123456789"] by (simp only: simp_thms)
qed


end
